theory Spec2Isabelle
  imports Complex_Main
begin

section \<open>Python values shared by the modules\<close>

text \<open>
  Exceptions are values: every function that can raise returns \<open>py_error + 'a\<close>, with
  \<open>Inl\<close> the exception. Python \<open>int\<close> is \<open>int\<close>; finite Python and TensorFlow floats
  are read as reals. Messages and configuration words are Isabelle strings. A Python
  \<open>str\<close> whose characters the code inspects (a path, a line of a file) is the list of its
  Unicode code points; \<open>str_of\<close> gives the code points of a literal.
\<close>

type_synonym py_str = "nat list"

definition str_of :: "string \<Rightarrow> py_str" where
  "str_of s = map of_char s"

datatype py_error =
    ValueError string
  | IndexError
  | KeyError py_str
  | FileNotFoundError py_str
  | InvalidArgumentError string

text \<open>\<open>str(n)\<close> for an integer, \<open>repr(s)\<close> for a plain string and \<open>str(xs)\<close> for a list.\<close>

fun str_nat :: "nat \<Rightarrow> string" where
  "str_nat n =
     (if n < 10 then [''0123456789'' ! n]
      else str_nat (n div 10) @ [''0123456789'' ! (n mod 10)])"

declare str_nat.simps [simp del]

definition str_int :: "int \<Rightarrow> string" where
  "str_int i = (if i < 0 then CHR ''-'' # str_nat (nat (- i)) else str_nat (nat i))"

definition repr_str :: "string \<Rightarrow> string" where
  "repr_str s = [CHR 0x27] @ s @ [CHR 0x27]"

fun join :: "string \<Rightarrow> string list \<Rightarrow> string" where
  "join sep [] = []"
| "join sep [x] = x"
| "join sep (x # y # ys) = x @ sep @ join sep (y # ys)"

definition str_list :: "string list \<Rightarrow> string" where
  "str_list items = ''['' @ join '', '' items @ '']''"

section \<open>readers/numpy_reader.py\<close>

text \<open>
  A numpy array is its shape and its elements in row-major order. The file system is
  read through three lookups: \<open>.npy\<close> files (path to array), \<open>.npz\<close> archives (path to
  named entries) and text files (path to lines).
\<close>

record ndarray =
  shape :: "nat list"
  elems :: "real list"

definition np_load :: "(py_str \<rightharpoonup> 'a) \<Rightarrow> py_str \<Rightarrow> py_error + 'a" where
  "np_load fs f = (case fs f of None \<Rightarrow> Inl (FileNotFoundError f) | Some a \<Rightarrow> Inr a)"

text \<open>The list comprehension \<open>[np.load(f) for f in files]\<close>: the first failure ends it.\<close>

fun load_each :: "(py_str \<rightharpoonup> 'a) \<Rightarrow> py_str list \<Rightarrow> py_error + 'a list" where
  "load_each fs [] = Inr []"
| "load_each fs (f # files) =
     (case np_load fs f of
        Inl e \<Rightarrow> Inl e
      | Inr a \<Rightarrow> (case load_each fs files of Inl e \<Rightarrow> Inl e | Inr as \<Rightarrow> Inr (a # as)))"

text \<open>
  \<open>np.concatenate(arrays, axis=0)\<close>: needs at least one array, none of dimension zero,
  and equal dimensions apart from the first axis. In row-major order joining along axis 0
  appends the element lists.
\<close>

definition np_concatenate :: "ndarray list \<Rightarrow> py_error + ndarray" where
  "np_concatenate arrays =
     (case arrays of
        [] \<Rightarrow> Inl (ValueError ''need at least one array to concatenate'')
      | a # _ \<Rightarrow>
          if list_ex (\<lambda>x. shape x = []) arrays
          then Inl (ValueError ''zero-dimensional arrays cannot be concatenated'')
          else if list_ex (\<lambda>x. tl (shape x) \<noteq> tl (shape a)) arrays
          then Inl (ValueError
            ''all the input array dimensions except for the concatenation axis must match exactly'')
          else Inr \<lparr>shape = sum_list (map (\<lambda>x. hd (shape x)) arrays) # tl (shape a),
                    elems = concat (map elems arrays)\<rparr>)"

definition single_tensor :: "(py_str \<rightharpoonup> ndarray) \<Rightarrow> py_str list \<Rightarrow> py_error + ndarray" where
  "single_tensor fs files =
     (if length files = 1 then np_load fs (files ! 0)
      else (case load_each fs files of
              Inl e \<Rightarrow> Inl e
            | Inr arrays \<Rightarrow> np_concatenate arrays))"

text \<open>
  \<open>line.rstrip()\<close> removes the trailing whitespace: the code points that Python counts
  as whitespace are the ASCII controls 9 to 13 and 28 to 31, the space, U+0085, U+00A0,
  U+1680, U+2000 to U+200A, U+2028, U+2029, U+202F, U+205F and U+3000.
\<close>

definition is_space :: "nat \<Rightarrow> bool" where
  "is_space c =
     (9 \<le> c \<and> c \<le> 13 \<or> 28 \<le> c \<and> c \<le> 32 \<or> c = 0x85 \<or> c = 0xA0 \<or> c = 0x1680 \<or>
      0x2000 \<le> c \<and> c \<le> 0x200A \<or> c = 0x2028 \<or> c = 0x2029 \<or> c = 0x202F \<or>
      c = 0x205F \<or> c = 0x3000)"

definition rstrip :: "py_str \<Rightarrow> py_str" where
  "rstrip s = rev (dropWhile is_space (rev s))"

text \<open>\<open>os.path.join\<close> on POSIX paths; 47 is the slash.\<close>

definition os_path_join :: "py_str \<Rightarrow> py_str \<Rightarrow> py_str" where
  "os_path_join a b =
     (if take 1 b = [47] then b
      else if a = [] \<or> last a = 47 then a @ b
      else a @ [47] @ b)"

text \<open>
  A generator is the finite sequence of what it yields, ended by exhaustion or by the
  exception raised while it was asked for the next item.
\<close>

datatype 'a gen = Stop | Yield 'a "'a gen" | Raise py_error

fun collect :: "'a gen \<Rightarrow> 'a list \<times> py_error option" where
  "collect Stop = ([], None)"
| "collect (Raise e) = ([], Some e)"
| "collect (Yield x g) = (x # fst (collect g), snd (collect g))"

definition shape_message :: "int list \<Rightarrow> int list \<Rightarrow> string" where
  "shape_message expected found =
     ''Shapes do not match: expected '' @ str_list (map str_int expected)
       @ '', found '' @ str_list (map str_int found)"

text \<open>
  The inner loop of \<open>load\<close> over the lines of one list file; \<open>k\<close> is the rest of the
  generator (the list files still to be opened).
\<close>

fun load_lines ::
  "(py_str \<rightharpoonup> (py_str \<rightharpoonup> ndarray)) \<Rightarrow> py_str \<Rightarrow> int list \<Rightarrow> py_str \<Rightarrow> py_str \<Rightarrow>
     py_str list \<Rightarrow> ndarray gen \<Rightarrow> ndarray gen" where
  "load_lines npz prefix shp suffix default_tensor_name [] k = k"
| "load_lines npz prefix shp suffix default_tensor_name (line # lines) k =
     (let path = os_path_join prefix (rstrip line) @ suffix in
      case npz path of
        None \<Rightarrow> Raise (FileNotFoundError path)
      | Some entries \<Rightarrow>
          (case entries default_tensor_name of
             None \<Rightarrow> Raise (KeyError default_tensor_name)
           | Some arr \<Rightarrow>
               (let arr_shape = map int (shape arr) in
                if arr_shape \<noteq> shp then Raise (ValueError (shape_message shp arr_shape))
                else Yield arr
                  (load_lines npz prefix shp suffix default_tensor_name lines k))))"

text \<open>\<open>from_file_list(prefix, shape, suffix, default_tensor_name)\<close> returns \<open>load\<close>.\<close>

fun from_file_list ::
  "(py_str \<rightharpoonup> py_str list) \<Rightarrow> (py_str \<rightharpoonup> (py_str \<rightharpoonup> ndarray)) \<Rightarrow>
     py_str \<Rightarrow> int list \<Rightarrow> py_str \<Rightarrow> py_str \<Rightarrow> py_str list \<Rightarrow> ndarray gen" where
  "from_file_list txt npz prefix shp suffix default_tensor_name [] = Stop"
| "from_file_list txt npz prefix shp suffix default_tensor_name (list_file # files) =
     (case txt list_file of
        None \<Rightarrow> Raise (FileNotFoundError list_file)
      | Some lines \<Rightarrow>
          load_lines npz prefix shp suffix default_tensor_name lines
            (from_file_list txt npz prefix shp suffix default_tensor_name files))"

section \<open>encoders/recurrent.py\<close>

datatype rnn_cell_class = NematusGRUCell | OrthoGRUCell | LSTMCell

text \<open>The dictionary \<open>RNN_CELL_TYPES\<close>, in the order it is written.\<close>

definition RNN_CELL_TYPES :: "(string \<times> rnn_cell_class) list" where
  "RNN_CELL_TYPES =
     [(''NematusGRU'', NematusGRUCell), (''GRU'', OrthoGRUCell), (''LSTM'', LSTMCell)]"

definition RNN_DIRECTIONS :: "string list" where
  "RNN_DIRECTIONS = [''forward'', ''backward'', ''both'']"

record RNNSpec =
  size_spec :: int
  direction :: string
  cell_type :: string

text \<open>
  \<open>_make_rnn_spec\<close>. The third message prints the dictionary, whose values are Python
  class objects; \<open>cells_repr\<close> stands for \<open>str(RNN_CELL_TYPES)\<close>.
\<close>

definition make_rnn_spec :: "string \<Rightarrow> int \<Rightarrow> string \<Rightarrow> string \<Rightarrow> py_error + RNNSpec" where
  "make_rnn_spec cells_repr size' direction' cell_type' =
     (if size' \<le> 0 then
        Inl (ValueError (''RNN size must be a positive integer. '' @ str_int size' @ '' given.''))
      else if direction' \<notin> set RNN_DIRECTIONS then
        Inl (ValueError (''RNN direction must be one of ''
              @ str_list (map repr_str RNN_DIRECTIONS) @ ''. '' @ direction' @ '' given.''))
      else if map_of RNN_CELL_TYPES cell_type' = None then
        Inl (ValueError (''RNN cell type must be one of ''
              @ cells_repr @ ''. '' @ cell_type' @ '' given.''))
      else Inr \<lparr>size_spec = size', direction = direction', cell_type = cell_type'\<rparr>)"

text \<open>
  A Python \<open>float\<close>: a finite number, an infinity or the value \<open>nan\<close>. The finite
  numbers are read as reals. The comparisons are those of Python: every comparison with
  \<open>nan\<close> is false.
\<close>

datatype py_float = Finite real | PosInf | NegInf | NaN

fun float_le :: "py_float \<Rightarrow> py_float \<Rightarrow> bool" where
  "float_le NaN b = False"
| "float_le a NaN = False"
| "float_le NegInf b = True"
| "float_le a PosInf = True"
| "float_le PosInf b = False"
| "float_le a NegInf = False"
| "float_le (Finite x) (Finite y) = (x \<le> y)"

fun float_lt :: "py_float \<Rightarrow> py_float \<Rightarrow> bool" where
  "float_lt NaN b = False"
| "float_lt a NaN = False"
| "float_lt PosInf b = False"
| "float_lt a NegInf = False"
| "float_lt NegInf b = True"
| "float_lt a PosInf = True"
| "float_lt (Finite x) (Finite y) = (x < y)"

definition float_gt :: "py_float \<Rightarrow> py_float \<Rightarrow> bool" where
  "float_gt a b = float_lt b a"

text \<open>
  \<open>RecurrentEncoder.__init__\<close>: the fields it sets and the checks it makes, in its order.
  The constructor returns an encoder or raises; an encoder exists only in the \<open>Inr\<close>
  case. The calls into the base classes and into TensorFlow (the variable scope and the
  \<open>train_mode\<close> placeholder) lie outside this module and are taken to succeed.
\<close>

record 'seq RecurrentEncoder =
  name :: string
  input_sequence :: 'seq
  dropout_keep_prob :: py_float
  rnn_spec :: RNNSpec

definition RecurrentEncoder_init ::
  "string \<Rightarrow> string \<Rightarrow> 'seq \<Rightarrow> int \<Rightarrow> string \<Rightarrow> string \<Rightarrow> py_float \<Rightarrow>
     py_error + 'seq RecurrentEncoder" where
  "RecurrentEncoder_init cells_repr name' input_sequence' rnn_size rnn_cell rnn_direction
       dropout_keep_prob' =
     (case make_rnn_spec cells_repr rnn_size rnn_direction rnn_cell of
        Inl e \<Rightarrow> Inl e
      | Inr spec \<Rightarrow>
          if float_le dropout_keep_prob' (Finite 0) \<or> float_gt dropout_keep_prob' (Finite 1)
          then Inl (ValueError ''Dropout keep prob must be inside (0,1].'')
          else Inr \<lparr>name = name', input_sequence = input_sequence',
                    dropout_keep_prob = dropout_keep_prob', rnn_spec = spec\<rparr>)"

text \<open>A message names a field when it begins with the words that name the field.\<close>

definition names_field :: "string \<Rightarrow> string \<Rightarrow> bool" where
  "names_field field msg = (take (length field) msg = field)"

section \<open>decoders/sequence_regressor.py\<close>

text \<open>\<open>zip(*rows)\<close>: the tuples of the rows' elements at equal positions, up to the shortest row.\<close>

definition zip_star :: "'a list list \<Rightarrow> 'a list list" where
  "zip_star rows =
     (case rows of
        [] \<Rightarrow> []
      | r # rs \<Rightarrow> map (\<lambda>i. map (\<lambda>row. row ! i) rows)
                    [0 ..< foldr min (map length rs) (length r)])"

datatype placeholder = gt_inputs | train_mode

datatype 'a feed_value = Targets "'a list" | Mode bool

text \<open>
  \<open>feed_dict\<close>. A dataset maps a series name to its rows; \<open>get_series(data_id,
  allow_none=True)\<close> is the lookup, \<open>None\<close> when the series is absent.
\<close>

definition feed_dict ::
  "(string \<rightharpoonup> 'a list list) \<Rightarrow> string \<Rightarrow> bool \<Rightarrow> py_error + (placeholder \<rightharpoonup> 'a feed_value)" where
  "feed_dict dataset data_id train =
     (let sentences = dataset data_id;
          sentences_list = sentences;
          fd = Map.empty
      in case sentences_list of
           None \<Rightarrow> Inr (fd(train_mode \<mapsto> Mode train))
         | Some rows \<Rightarrow>
             (case zip_star rows of
                [] \<Rightarrow> Inl IndexError
              | first # _ \<Rightarrow> Inr (fd(gt_inputs \<mapsto> Targets first, train_mode \<mapsto> Mode train))))"

text \<open>
  Tensors of rank two are lists of rows (batch first). An elementwise operation
  broadcasts a dimension of size one and fails on any other mismatch.
\<close>

definition broadcast1 :: "('a \<Rightarrow> 'a \<Rightarrow> 'a) \<Rightarrow> 'a list \<Rightarrow> 'a list \<Rightarrow> py_error + 'a list" where
  "broadcast1 f xs ys =
     (if length xs = length ys then Inr (map2 f xs ys)
      else if length xs = 1 then Inr (map (f (xs ! 0)) ys)
      else if length ys = 1 then Inr (map (\<lambda>x. f x (ys ! 0)) xs)
      else Inl (ValueError ''Dimensions must be equal''))"

fun sequence_err :: "(py_error + 'a) list \<Rightarrow> py_error + 'a list" where
  "sequence_err [] = Inr []"
| "sequence_err (r # rs) =
     (case r of
        Inl e \<Rightarrow> Inl e
      | Inr x \<Rightarrow> (case sequence_err rs of Inl e \<Rightarrow> Inl e | Inr xs \<Rightarrow> Inr (x # xs)))"

definition broadcast2 ::
  "('a \<Rightarrow> 'a \<Rightarrow> 'a) \<Rightarrow> 'a list list \<Rightarrow> 'a list list \<Rightarrow> py_error + 'a list list" where
  "broadcast2 f xs ys =
     (if length xs = length ys then sequence_err (map2 (broadcast1 f) xs ys)
      else if length xs = 1 then sequence_err (map (broadcast1 f (xs ! 0)) ys)
      else if length ys = 1 then sequence_err (map (\<lambda>x. broadcast1 f x (ys ! 0)) xs)
      else Inl (ValueError ''Dimensions must be equal''))"

definition tf_subtract :: "real list list \<Rightarrow> real list list \<Rightarrow> py_error + real list list" where
  "tf_subtract = broadcast2 (-)"

text \<open>
  \<open>tf.concat(values, 1)\<close> while the graph is built: an empty list is refused; otherwise
  the rows of the inputs are joined.
\<close>

definition tf_concat1 :: "real list list list \<Rightarrow> py_error + real list list" where
  "tf_concat1 vals =
     (if vals = [] then Inl (ValueError ''List argument values to ConcatV2 Op is too short'')
      else Inr (map concat (transpose vals)))"

definition expand_dims1 :: "real list \<Rightarrow> real list list" where
  "expand_dims1 xs = map (\<lambda>x. [x]) xs"

definition reduce_sum_all :: "real list list \<Rightarrow> real" where
  "reduce_sum_all t = sum_list (map sum_list t)"

definition square :: "real list list \<Rightarrow> real list list" where
  "square t = map (map (\<lambda>x. x * x)) t"

text \<open>\<open>assert_shape(t, [-1, 1])\<close>: any number of rows, each of one entry.\<close>

definition assert_shape_col :: "real list list \<Rightarrow> py_error + unit" where
  "assert_shape_col t =
     (if list_all (\<lambda>row. length row = 1) t then Inr ()
      else Inl (ValueError ''Shape mismatch''))"

record encoder =
  encoded :: "real list list"

text \<open>Lines 51 and 52: the input of the perceptron, assigned twice.\<close>

definition mlp_input_of :: "encoder list \<Rightarrow> py_error + real list list" where
  "mlp_input_of encoders =
     (case tf_concat1 (map encoded encoders) of
        Inl e \<Rightarrow> Inl e
      | Inr mlp_input \<Rightarrow>
          (case encoders of
             e0 # e1 # _ \<Rightarrow> tf_subtract (encoded e0) (encoded e1)
           | _ \<Rightarrow> Inl IndexError))"

text \<open>
  The graph built by \<open>SequenceRegressor.__init__\<close>, evaluated on the values fed for
  \<open>gt_inputs\<close> and \<open>train_mode\<close>: the pair of \<open>predicted\<close> and \<open>cost\<close>. The functions
  \<open>multilayer_projection\<close> and \<open>linear\<close> of \<open>neuralmonkey.nn.projection\<close> are parameters,
  called with the arguments the constructor passes.
\<close>

definition SequenceRegressor_graph ::
  "(real list list \<Rightarrow> nat list option \<Rightarrow> (real \<Rightarrow> real) \<Rightarrow> bool \<Rightarrow> real \<Rightarrow> real list list) \<Rightarrow>
   (real list list \<Rightarrow> nat \<Rightarrow> real list list) \<Rightarrow>
   encoder list \<Rightarrow> nat list option \<Rightarrow> (real \<Rightarrow> real) \<Rightarrow> real \<Rightarrow>
   real list \<Rightarrow> bool \<Rightarrow> py_error + real list list \<times> real" where
  "SequenceRegressor_graph multilayer_projection linear' encoders layers activation_fn
       dropout_keep_prob' gt_inputs' train_mode' =
     (case mlp_input_of encoders of
        Inl e \<Rightarrow> Inl e
      | Inr mlp_input \<Rightarrow>
          (let mlp = multilayer_projection mlp_input layers activation_fn train_mode'
                       dropout_keep_prob';
               mlp_logits = linear' mlp 1
           in case assert_shape_col mlp_logits of
                Inl e \<Rightarrow> Inl e
              | Inr _ \<Rightarrow>
                  (case tf_subtract mlp_logits (expand_dims1 gt_inputs') of
                     Inl e \<Rightarrow> Inl e
                   | Inr diff \<Rightarrow> Inr (mlp_logits, reduce_sum_all (square diff)))))"

text \<open>
  Modelled from the spec: one layer of the multilayer perceptron before its nonlinearity
  (\<open>multilayer_projection\<close> of \<open>neuralmonkey.nn.projection\<close> is not among the sources).
  The layer multiplies by its weight matrix and adds its bias; the size of the layer is the
  number of rows of the matrix.
\<close>

definition affine :: "real list list \<Rightarrow> real list \<Rightarrow> real list \<Rightarrow> real list" where
  "affine W b x = map2 (\<lambda>row bi. sum_list (map2 (*) row x) + bi) W b"

text \<open>
  Modelled from the spec: dropout gated by the training-mode flag. In training mode the
  entries the draw keeps are rescaled by the keep probability and the others are zeroed;
  otherwise the input passes unchanged.
\<close>

definition dropout :: "bool list \<Rightarrow> real \<Rightarrow> bool \<Rightarrow> real list \<Rightarrow> real list" where
  "dropout keep_mask keep_prob train x =
     (if train then map2 (\<lambda>m v. if m then v / keep_prob else 0) keep_mask x else x)"

text \<open>
  Modelled from the spec: the multilayer perceptron, a sequence of layers each followed by
  the configured nonlinearity and by dropout. The first argument holds the learned weights
  and biases and the dropout draw of every layer; the others are what the constructor
  passes to \<open>multilayer_projection\<close>.
\<close>

fun spec_multilayer_projection ::
  "(real list list \<times> real list \<times> bool list) list \<Rightarrow>
     real list list \<Rightarrow> nat list option \<Rightarrow> (real \<Rightarrow> real) \<Rightarrow> bool \<Rightarrow> real \<Rightarrow> real list list" where
  "spec_multilayer_projection [] input layers activation train keep_prob = input"
| "spec_multilayer_projection ((W, b, keep_mask) # params) input layers activation train keep_prob =
     spec_multilayer_projection params
       (map (\<lambda>x. dropout keep_mask keep_prob train (map activation (affine W b x))) input)
       layers activation train keep_prob"

text \<open>
  Modelled from the spec: the projection of every example to \<open>n\<close> scalars, here one
  (\<open>linear\<close> of \<open>neuralmonkey.nn.projection\<close> is not among the sources), with weights
  \<open>w\<close> and bias \<open>b\<close>.
\<close>

definition spec_linear :: "real list \<Rightarrow> real \<Rightarrow> real list list \<Rightarrow> nat \<Rightarrow> real list list" where
  "spec_linear w b input n = map (\<lambda>x. replicate n (sum_list (map2 (*) w x) + b)) input"

text \<open>The logistic function \<open>tf.sigmoid\<close>, a nonlinearity a configuration may choose.\<close>

definition sigmoid :: "real \<Rightarrow> real" where
  "sigmoid x = 1 / (1 + exp (- x))"

section \<open>trainers/rl_trainer.py\<close>

text \<open>
  A scalar of the computation graph is a value together with its derivative with respect
  to one trainable parameter, the same one throughout. The operations compute the value
  and propagate the derivative by the usual rules; \<open>tf.stop_gradient\<close> keeps the value and
  cuts the derivative.
\<close>

datatype dual = Dual (val: real) (grad: real)

instantiation dual :: comm_ring_1
begin

definition zero_dual_def: "0 = Dual 0 0"

definition one_dual_def: "1 = Dual 1 0"

definition plus_dual_def: "a + b = Dual (val a + val b) (grad a + grad b)"

definition uminus_dual_def: "- a = Dual (- val a) (- grad a)"

definition minus_dual_def: "a - b = Dual (val a - val b) (grad a - grad b)"

definition times_dual_def:
  "a * b = Dual (val a * val b) (val a * grad b + grad a * val b)"

instance
  by standard
    (simp_all add: zero_dual_def one_dual_def plus_dual_def uminus_dual_def minus_dual_def
      times_dual_def algebra_simps)

end

definition tf_constant :: "real \<Rightarrow> dual" where
  "tf_constant c = Dual c 0"

definition stop_gradient :: "dual \<Rightarrow> dual" where
  "stop_gradient x = Dual (val x) 0"

definition tf_div :: "dual \<Rightarrow> dual \<Rightarrow> dual" where
  "tf_div a b = Dual (val a / val b) ((grad a * val b - val a * grad b) / (val b * val b))"

definition tf_exp :: "dual \<Rightarrow> dual" where
  "tf_exp x = Dual (exp (val x)) (exp (val x) * grad x)"

definition tf_log :: "dual \<Rightarrow> dual" where
  "tf_log x = Dual (ln (val x)) (grad x / val x)"

text \<open>
  \<open>tf.reduce_sum(t, axis=0)\<close> for a tensor of rows of static width \<open>n\<close>, \<open>tf.reduce_sum\<close>
  over all entries, \<open>tf.reduce_mean\<close> of a vector and \<open>tf.nn.softmax(t, dim=0)\<close>.
\<close>

definition reduce_sum0 :: "nat \<Rightarrow> 'a::monoid_add list list \<Rightarrow> 'a list" where
  "reduce_sum0 n t = foldr (map2 (+)) t (replicate n 0)"

definition reduce_sum :: "dual list list \<Rightarrow> dual" where
  "reduce_sum t = sum_list (map sum_list t)"

definition reduce_mean :: "dual list \<Rightarrow> dual" where
  "reduce_mean xs = tf_div (sum_list xs) (tf_constant (real (length xs)))"

definition softmax0 :: "nat \<Rightarrow> dual list list \<Rightarrow> dual list list" where
  "softmax0 n t =
     (let e = map (map tf_exp) t; z = reduce_sum0 n e
      in map (\<lambda>row. map2 tf_div row z) e)"

text \<open>
  \<open>tf.nn.sparse_softmax_cross_entropy_with_logits\<close> for one position: the negative
  logarithm of the softmax probability of the label.
\<close>

definition sparse_softmax_cross_entropy_with_logits :: "nat \<Rightarrow> dual list \<Rightarrow> dual" where
  "sparse_softmax_cross_entropy_with_logits label lg =
     tf_log (sum_list (map tf_exp lg)) - lg ! label"

text \<open>
  What \<open>decoder.decoding_loop\<close> returns, as far as the objective reads it: the logits
  (time, batch, vocabulary) and the sampled symbols (time, batch). The decoder gives the
  reference symbols (time, batch), the batch size and its own cross-entropy loss.
\<close>

record loop_result =
  logits :: "dual list list list"
  output_symbols :: "nat list list"

record decoder =
  train_inputs :: "nat list list"
  batch_size :: nat
  cost :: dual

record ReinforceObjective =
  subtract_baseline :: bool
  normalize :: bool
  temperature :: real
  ce_smoothing :: real
  alpha :: real
  sample_size :: int

text \<open>The two variables \<open>reward_counter\<close> and \<open>reward_sum\<close>, created with value 0.\<close>

record baseline_variables =
  reward_counter :: real
  reward_sum :: real

definition initial_variables :: baseline_variables where
  "initial_variables = \<lparr>reward_counter = 0, reward_sum = 0\<rparr>"

text \<open>
  The cross-entropy operation refuses a label outside the vocabulary and operands of
  different shapes.
\<close>

definition valid_labels :: "loop_result \<Rightarrow> bool" where
  "valid_labels r =
     list_all2 (list_all2 (\<lambda>label lg. label < length lg)) (output_symbols r) (logits r)"

text \<open>
  A sampling result that fits a decoder: the symbols and the logits have the same time and
  batch dimensions, the batch dimension is the decoder's, and every symbol lies in the
  vocabulary.
\<close>

definition well_shaped :: "decoder \<Rightarrow> loop_result \<Rightarrow> bool" where
  "well_shaped dec r =
     (valid_labels r \<and> list_all (\<lambda>row. length row = batch_size dec) (output_symbols r))"

text \<open>Lines 135 to 140: the log-probabilities of the sampled words and their sum over time.\<close>

definition word_logprobs :: "loop_result \<Rightarrow> dual list list" where
  "word_logprobs r =
     map2 (map2 (\<lambda>label lg. - sparse_softmax_cross_entropy_with_logits label lg))
       (output_symbols r) (logits r)"

definition sent_logprobs :: "decoder \<Rightarrow> loop_result \<Rightarrow> dual list" where
  "sent_logprobs dec r = reduce_sum0 (batch_size dec) (word_logprobs r)"

text \<open>
  The loop over \<open>range(sample_size)\<close>. The \<open>i\<close>-th call of \<open>decoding_loop\<close> draws afresh, so
  the function takes the number of the call; \<open>score\<close> is the tensor that \<open>tf.py_func\<close>
  returns for \<open>_score_with_reward_function\<close> on the reference and the sampled symbols.
\<close>

definition sample_results ::
  "ReinforceObjective \<Rightarrow> (nat \<Rightarrow> bool \<Rightarrow> bool \<Rightarrow> real \<Rightarrow> loop_result) \<Rightarrow> loop_result list" where
  "sample_results self decoding_loop =
     map (\<lambda>i. decoding_loop i False True (temperature self)) [0 ..< nat (sample_size self)]"

definition samples_rewards ::
  "ReinforceObjective \<Rightarrow> decoder \<Rightarrow> (nat \<Rightarrow> bool \<Rightarrow> bool \<Rightarrow> real \<Rightarrow> loop_result) \<Rightarrow>
     (nat list list \<Rightarrow> nat list list \<Rightarrow> dual list) \<Rightarrow> dual list list" where
  "samples_rewards self dec decoding_loop score =
     map (\<lambda>r. score (train_inputs dec) (output_symbols r)) (sample_results self decoding_loop)"

definition samples_logprobs ::
  "ReinforceObjective \<Rightarrow> decoder \<Rightarrow> (nat \<Rightarrow> bool \<Rightarrow> bool \<Rightarrow> real \<Rightarrow> loop_result) \<Rightarrow>
     dual list list" where
  "samples_logprobs self dec decoding_loop =
     map (sent_logprobs dec) (sample_results self decoding_loop)"

text \<open>
  The two variables are created by \<open>tf.Variable(0.0)\<close> and hold single-precision floats:
  what \<open>tf.assign_add\<close> stores is the sum rounded to the nearest float32, a tie going to
  the neighbour with the even significand. \<open>fl32\<close> is that rounding for the normal and
  the subnormal range (24 bits of significand, least exponent -126); a sum beyond the
  largest float32 lies outside it. The remaining operations of the graph are computed in
  the reals.
\<close>

definition round_half_even :: "real \<Rightarrow> int" where
  "round_half_even x =
     (let f = \<lfloor>x\<rfloor>; r = x - of_int f
      in if r < 1 / 2 then f else if 1 / 2 < r then f + 1 else if even f then f else f + 1)"

definition fl32 :: "real \<Rightarrow> real" where
  "fl32 x =
     (if x = 0 then 0
      else let e = max \<lfloor>log 2 \<bar>x\<bar>\<rfloor> (- 126); u = 2 powi (e - 23)
           in of_int (round_half_even (x / u)) * u)"

text \<open>
  Lines 149 to 164. Both \<open>tf.assign_add\<close> give the incremented variable, so the baseline
  is read from the new totals; it enters the graph as a value without derivative.
  \<open>tf.to_float\<close> converts the product of the two sizes to a float32; the product itself
  is taken in the integers, so a step with \<open>2^31\<close> rewards or more, where the int32
  product wraps, lies outside the model.
\<close>

definition update_variables ::
  "ReinforceObjective \<Rightarrow> decoder \<Rightarrow> dual list list \<Rightarrow> baseline_variables \<Rightarrow> baseline_variables" where
  "update_variables self dec samples_rewards_stacked vars =
     \<lparr>reward_counter =
        fl32 (reward_counter vars
              + fl32 (real_of_int (int (batch_size dec) * sample_size self))),
      reward_sum = fl32 (reward_sum vars + val (reduce_sum samples_rewards_stacked))\<rparr>"

definition baseline :: "baseline_variables \<Rightarrow> real" where
  "baseline vars = reward_sum vars / max (reward_counter vars) 1"

definition rewards_used ::
  "ReinforceObjective \<Rightarrow> decoder \<Rightarrow> dual list list \<Rightarrow> baseline_variables \<Rightarrow> dual list list" where
  "rewards_used self dec samples_rewards_stacked vars =
     (if subtract_baseline self
      then map (map (\<lambda>r. r - tf_constant (baseline
             (update_variables self dec samples_rewards_stacked vars)))) samples_rewards_stacked
      else samples_rewards_stacked)"

text \<open>Lines 170 to 173.\<close>

definition probs_used :: "ReinforceObjective \<Rightarrow> decoder \<Rightarrow> dual list list \<Rightarrow> dual list list" where
  "probs_used self dec samples_logprobs_stacked =
     (if normalize self
      then softmax0 (batch_size dec)
             (map (map (\<lambda>x. x * tf_constant (alpha self))) samples_logprobs_stacked)
      else samples_logprobs_stacked)"

text \<open>
  \<open>ReinforceObjective.loss\<close>, evaluated for one training step: the loss and the variables
  after the step. \<open>tf.stack\<close> refuses an empty list while the graph is built. The reward
  and the probability arrays have the same shape (samples by batch), so their product is
  taken entry by entry. The two summaries are written beside the result and change
  nothing.
\<close>

definition loss ::
  "ReinforceObjective \<Rightarrow> decoder \<Rightarrow> (nat \<Rightarrow> bool \<Rightarrow> bool \<Rightarrow> real \<Rightarrow> loop_result) \<Rightarrow>
     (nat list list \<Rightarrow> nat list list \<Rightarrow> dual list) \<Rightarrow> baseline_variables \<Rightarrow>
     py_error + dual \<times> baseline_variables" where
  "loss self dec decoding_loop score vars =
     (if sample_results self decoding_loop = [] then
        Inl (ValueError ''List argument values to Pack Op is too short'')
      else if \<not> list_all valid_labels (sample_results self decoding_loop) then
        Inl (InvalidArgumentError ''Received a label value outside the valid range'')
      else
        (let samples_rewards_stacked = samples_rewards self dec decoding_loop score;
             samples_logprobs_stacked = samples_logprobs self dec decoding_loop;
             vars' = (if subtract_baseline self
                      then update_variables self dec samples_rewards_stacked vars else vars);
             samples_rewards_stacked = rewards_used self dec samples_rewards_stacked vars;
             samples_logprobs_stacked = probs_used self dec samples_logprobs_stacked;
             scored_probs = map2 (map2 (*))
               (map (map (\<lambda>r. stop_gradient (- r))) samples_rewards_stacked)
               samples_logprobs_stacked;
             total_loss = reduce_sum0 (batch_size dec) scored_probs;
             batch_loss = reduce_mean total_loss;
             batch_loss = (if ce_smoothing self > 0
                           then batch_loss + tf_constant (ce_smoothing self) * cost dec
                           else batch_loss)
         in Inr (batch_loss, vars')))"




section \<open>Verified properties\<close>

subsection \<open>Numpy readers\<close>

lemma str_nat_digit: "n < 10 \<Longrightarrow> str_nat n = [''0123456789'' ! n]"
  by (simp add: str_nat.simps)

lemma load_each_all:
  "list_all2 (\<lambda>f a. fs f = Some a) files arrays \<Longrightarrow> load_each fs files = Inr arrays"
  by (induction files arrays rule: list_all2_induct) (simp_all add: np_load_def)

lemma collect_load_lines:
  assumes "\<forall>line \<in> set lines. \<exists>entries.
             npz (os_path_join prefix (rstrip line) @ suffix) = Some entries \<and>
             entries key = Some (arr_of line)"
  shows "collect (load_lines npz prefix shp suffix key lines k) =
     (if list_all (\<lambda>a. map int (shape a) = shp) (map arr_of lines)
      then (map arr_of lines @ fst (collect k), snd (collect k))
      else (takeWhile (\<lambda>a. map int (shape a) = shp) (map arr_of lines),
            Some (ValueError (shape_message shp
              (map int (shape (hd (dropWhile (\<lambda>a. map int (shape a) = shp) (map arr_of lines)))))))))"
  using assms
proof (induction lines)
  case Nil
  then show ?case by simp
next
  case (Cons line lines)
  then obtain entries where e: "npz (os_path_join prefix (rstrip line) @ suffix) = Some entries"
     "entries key = Some (arr_of line)" by auto
  from Cons have ih: "collect (load_lines npz prefix shp suffix key lines k) =
     (if list_all (\<lambda>a. map int (shape a) = shp) (map arr_of lines)
      then (map arr_of lines @ fst (collect k), snd (collect k))
      else (takeWhile (\<lambda>a. map int (shape a) = shp) (map arr_of lines),
            Some (ValueError (shape_message shp
              (map int (shape (hd (dropWhile (\<lambda>a. map int (shape a) = shp) (map arr_of lines)))))))))"
    by simp
  show ?case
  proof (cases "map int (shape (arr_of line)) = shp")
    case True
    with e ih show ?thesis by (simp add: Let_def)
  next
    case False
    with e show ?thesis by (simp add: Let_def)
  qed
qed

lemma takeWhile_all_append:
  "list_all P xs \<Longrightarrow> takeWhile P (xs @ ys) = xs @ takeWhile P ys"
  by (induction xs) auto

lemma dropWhile_all_append:
  "list_all P xs \<Longrightarrow> dropWhile P (xs @ ys) = dropWhile P ys"
  by (induction xs) auto

lemma takeWhile_stops_append:
  "\<not> list_all P xs \<Longrightarrow> takeWhile P (xs @ ys) = takeWhile P xs"
  by (induction xs) auto

lemma hd_dropWhile_stops_append:
  "\<not> list_all P xs \<Longrightarrow> hd (dropWhile P (xs @ ys)) = hd (dropWhile P xs)"
  by (induction xs) auto

lemma collect_from_file_list:
  assumes "list_all2 (\<lambda>f ls. txt f = Some ls) files liness"
    and "\<forall>line \<in> set (concat liness). \<exists>entries.
             npz (os_path_join prefix (rstrip line) @ suffix) = Some entries \<and>
             entries key = Some (arr_of line)"
  shows "collect (from_file_list txt npz prefix shp suffix key files) =
     (if list_all (\<lambda>a. map int (shape a) = shp) (map arr_of (concat liness))
      then (map arr_of (concat liness), None)
      else (takeWhile (\<lambda>a. map int (shape a) = shp) (map arr_of (concat liness)),
            Some (ValueError (shape_message shp
              (map int (shape (hd (dropWhile (\<lambda>a. map int (shape a) = shp)
                 (map arr_of (concat liness))))))))))"
  using assms
proof (induction files liness rule: list_all2_induct)
  case Nil
  then show ?case by simp
next
  case (Cons f files ls liness)
  let ?ok = "\<lambda>a. map int (shape a) = shp"
  from Cons have l: "\<forall>line \<in> set ls. \<exists>entries.
             npz (os_path_join prefix (rstrip line) @ suffix) = Some entries \<and>
             entries key = Some (arr_of line)" by simp
  from Cons have ih: "collect (from_file_list txt npz prefix shp suffix key files) =
     (if list_all ?ok (map arr_of (concat liness))
      then (map arr_of (concat liness), None)
      else (takeWhile ?ok (map arr_of (concat liness)),
            Some (ValueError (shape_message shp
              (map int (shape (hd (dropWhile ?ok (map arr_of (concat liness))))))))))"
    by simp
  show ?case
  proof (cases "list_all ?ok (map arr_of ls)")
    case True
    with Cons(1) show ?thesis
      by (simp add: collect_load_lines [OF l] ih takeWhile_all_append dropWhile_all_append)
  next
    case False
    with Cons(1) show ?thesis
      by (simp add: collect_load_lines [OF l] takeWhile_stops_append hd_dropWhile_stops_append)
  qed
qed

text \<open>
  Claim C8. \<open>single_tensor\<close> on a list of exactly one path returns that file's array
  unchanged. On more than one path, when every file loads and the arrays agree in every
  dimension but the first, it returns their concatenation along axis 0: the leading
  dimension is the sum of the inputs' leading dimensions and the elements are the inputs'
  elements in order.
\<close>

theorem single_tensor_concatenates:
  "(fs f = Some a \<longrightarrow> single_tensor fs [f] = Inr a) \<and>
   (1 < length files \<and> list_all2 (\<lambda>f a. fs f = Some a) files arrays \<and>
    (\<forall>a \<in> set arrays. shape a \<noteq> [] \<and> tl (shape a) = rest) \<longrightarrow>
      single_tensor fs files =
        Inr \<lparr>shape = (\<Sum>a\<leftarrow>arrays. hd (shape a)) # rest,
             elems = concat (map elems arrays)\<rparr>)"
proof (intro conjI impI)
  assume "fs f = Some a"
  then show "single_tensor fs [f] = Inr a"
    by (simp add: single_tensor_def np_load_def)
next
  assume h: "1 < length files \<and> list_all2 (\<lambda>f a. fs f = Some a) files arrays \<and>
    (\<forall>a \<in> set arrays. shape a \<noteq> [] \<and> tl (shape a) = rest)"
  then have le: "load_each fs files = Inr arrays"
    by (simp add: load_each_all)
  from h have "length arrays = length files"
    by (auto dest: list_all2_lengthD)
  with h obtain b bs where ab: "arrays = b # bs"
    by (cases arrays) auto
  from h have no0: "\<not> list_ex (\<lambda>x. shape x = []) arrays"
    by (simp add: list_ex_iff)
  from h ab have same: "\<not> list_ex (\<lambda>x. tl (shape x) \<noteq> tl (shape b)) arrays"
    by (simp add: list_ex_iff)
  from h ab have "tl (shape b) = rest" by simp
  with h le no0 same ab show "single_tensor fs files =
        Inr \<lparr>shape = (\<Sum>a\<leftarrow>arrays. hd (shape a)) # rest,
             elems = concat (map elems arrays)\<rparr>"
    by (simp add: single_tensor_def np_concatenate_def)
qed

theorem single_tensor_concatenates_witness:
  "single_tensor [str_of ''a.npy'' \<mapsto> \<lparr>shape = [1, 2], elems = [1, 2]\<rparr>] [str_of ''a.npy'']
     = Inr \<lparr>shape = [1, 2], elems = [1, 2]\<rparr> \<and>
   single_tensor [str_of ''a.npy'' \<mapsto> \<lparr>shape = [1, 2], elems = [1, 2]\<rparr>,
                  str_of ''b.npy'' \<mapsto> \<lparr>shape = [2, 2], elems = [3, 4, 5, 6]\<rparr>]
       [str_of ''a.npy'', str_of ''b.npy'']
     = Inr \<lparr>shape = [3, 2], elems = [1, 2, 3, 4, 5, 6]\<rparr>"
  using single_tensor_concatenates [of
      "[str_of ''a.npy'' \<mapsto> \<lparr>shape = [1, 2], elems = [1, 2]\<rparr>]" "str_of ''a.npy''"
      "\<lparr>shape = [1, 2], elems = [1, 2]\<rparr>" "[]" "[]" "[]"]
    single_tensor_concatenates [of
      "[str_of ''a.npy'' \<mapsto> \<lparr>shape = [1, 2], elems = [1, 2]\<rparr>,
        str_of ''b.npy'' \<mapsto> \<lparr>shape = [2, 2], elems = [3, 4, 5, 6]\<rparr>]" "str_of ''a.npy''"
      "\<lparr>shape = [1, 2], elems = [1, 2]\<rparr>" "[str_of ''a.npy'', str_of ''b.npy'']"
      "[\<lparr>shape = [1, 2], elems = [1, 2]\<rparr>, \<lparr>shape = [2, 2], elems = [3, 4, 5, 6]\<rparr>]" "[2]"]
  by (simp add: str_of_def)

text \<open>
  Claim C7. When every list file and every named archive entry can be read, the sequence
  returned by \<open>from_file_list\<close> raises the shape-mismatch error exactly when some loaded
  array's shape, as a list, differs from the declared shape: if all shapes match it yields
  every array and ends without an error; otherwise it yields the arrays before the first
  mismatch and then raises a \<open>ValueError\<close> whose message names the expected and the found
  shape.
\<close>

theorem from_file_list_shape_check:
  assumes "list_all2 (\<lambda>f ls. txt f = Some ls) files liness"
    and "\<forall>line \<in> set (concat liness). \<exists>entries.
             npz (os_path_join prefix (rstrip line) @ suffix) = Some entries \<and>
             entries key = Some (arr_of line)"
  shows "collect (from_file_list txt npz prefix shp suffix key files) =
     (if list_all (\<lambda>a. map int (shape a) = shp) (map arr_of (concat liness))
      then (map arr_of (concat liness), None)
      else (takeWhile (\<lambda>a. map int (shape a) = shp) (map arr_of (concat liness)),
            Some (ValueError (''Shapes do not match: expected '' @ str_list (map str_int shp)
              @ '', found '' @ str_list (map str_int
              (map int (shape (hd (dropWhile (\<lambda>a. map int (shape a) = shp)
                 (map arr_of (concat liness)))))))))))"
  using collect_from_file_list [OF assms] by (simp add: shape_message_def)

theorem from_file_list_shape_check_witness:
  "collect (from_file_list
      [str_of ''list.txt'' \<mapsto> [str_of ''a.npz'' @ [10], str_of ''b.npz'' @ [0xA0, 0x85, 10]]]
      [str_of ''data/a.npz'' \<mapsto> [str_of ''arr_0'' \<mapsto> \<lparr>shape = [2], elems = [1, 2]\<rparr>],
       str_of ''data/b.npz'' \<mapsto> [str_of ''arr_0'' \<mapsto> \<lparr>shape = [3], elems = [1, 2, 3]\<rparr>]]
      (str_of ''data'') [2] [] (str_of ''arr_0'') [str_of ''list.txt''])
   = ([\<lparr>shape = [2], elems = [1, 2]\<rparr>],
      Some (ValueError ''Shapes do not match: expected [2], found [3]''))"
  using from_file_list_shape_check [of
      "[str_of ''list.txt'' \<mapsto> [str_of ''a.npz'' @ [10], str_of ''b.npz'' @ [0xA0, 0x85, 10]]]"
      "[str_of ''list.txt'']" "[[str_of ''a.npz'' @ [10], str_of ''b.npz'' @ [0xA0, 0x85, 10]]]"
      "[str_of ''data/a.npz'' \<mapsto> [str_of ''arr_0'' \<mapsto> \<lparr>shape = [2], elems = [1, 2]\<rparr>],
       str_of ''data/b.npz'' \<mapsto> [str_of ''arr_0'' \<mapsto> \<lparr>shape = [3], elems = [1, 2, 3]\<rparr>]]"
      "str_of ''data''" "[]" "str_of ''arr_0''"
      "\<lambda>line. if line = str_of ''a.npz'' @ [10] then \<lparr>shape = [2], elems = [1, 2]\<rparr>
              else \<lparr>shape = [3], elems = [1, 2, 3]\<rparr>"
      "[2]"]
  by (simp add: str_of_def os_path_join_def rstrip_def is_space_def str_list_def str_int_def
      str_nat_digit)

subsection \<open>Recurrent encoder\<close>

lemma make_rnn_spec_ok:
  "(\<exists>spec. make_rnn_spec r s d c = Inr spec) \<longleftrightarrow>
     0 < s \<and> d \<in> {''forward'', ''backward'', ''both''} \<and> c \<in> {''GRU'', ''LSTM'', ''NematusGRU''}"
  by (auto simp: make_rnn_spec_def RNN_DIRECTIONS_def RNN_CELL_TYPES_def)

lemma dropout_guard:
  "(float_le p (Finite 0) \<or> float_gt p (Finite 1)) \<longleftrightarrow>
     p \<noteq> NaN \<and> \<not> (\<exists>x. p = Finite x \<and> 0 < x \<and> x \<le> 1)"
  by (cases p) (auto simp: float_gt_def)

lemma init_ok:
  "(\<exists>enc. RecurrentEncoder_init r n inp s c d p = Inr enc) \<longleftrightarrow>
     (\<exists>spec. make_rnn_spec r s d c = Inr spec) \<and>
     \<not> (float_le p (Finite 0) \<or> float_gt p (Finite 1))"
  by (cases "make_rnn_spec r s d c") (simp_all add: RecurrentEncoder_init_def)

lemma init_cases:
  "RecurrentEncoder_init r n inp s c d p =
     (if s \<le> 0 then
        Inl (ValueError (''RNN size must be a positive integer. '' @ str_int s @ '' given.''))
      else if d \<notin> {''forward'', ''backward'', ''both''} then
        Inl (ValueError (''RNN direction must be one of ''
              @ str_list (map repr_str RNN_DIRECTIONS) @ ''. '' @ d @ '' given.''))
      else if c \<notin> {''GRU'', ''LSTM'', ''NematusGRU''} then
        Inl (ValueError (''RNN cell type must be one of '' @ r @ ''. '' @ c @ '' given.''))
      else if float_le p (Finite 0) \<or> float_gt p (Finite 1)
        then Inl (ValueError ''Dropout keep prob must be inside (0,1].'')
      else Inr \<lparr>name = n, input_sequence = inp, dropout_keep_prob = p,
        rnn_spec = \<lparr>size_spec = s, direction = d, cell_type = c\<rparr>\<rparr>)"
  by (auto simp add: RecurrentEncoder_init_def make_rnn_spec_def RNN_DIRECTIONS_def
      RNN_CELL_TYPES_def)

text \<open>
  Claim C3. The claim says that constructing a \<open>RecurrentEncoder\<close> succeeds if and only
  if \<open>rnn_size\<close> is positive, \<open>rnn_direction\<close> is one of forward, backward and both,
  \<open>rnn_cell\<close> is one of GRU, LSTM and NematusGRU, and \<open>dropout_keep_prob\<close> lies in the
  interval (0, 1], and the message of the constructor's own check says the same: ``Dropout
  keep prob must be inside (0,1].'' The code misses one case. With a valid size, direction
  and cell type and \<open>dropout_keep_prob = nan\<close> both comparisons of the check are false, so
  the constructor returns an encoder whose keep probability is \<open>nan\<close>, a value outside
  (0, 1]. In general the constructor succeeds exactly when the first three conditions
  hold and the keep probability is \<open>nan\<close> or a finite number in (0, 1]. In every other
  case it returns no encoder and raises a \<open>ValueError\<close> whose message begins with the name
  of a field that is invalid (the first one in the order size, direction, cell type,
  dropout).
\<close>

theorem RecurrentEncoder_init_accepts_nan:
  "RecurrentEncoder_init r n inp 1 ''GRU'' ''both'' NaN =
     Inr \<lparr>name = n, input_sequence = inp, dropout_keep_prob = NaN,
          rnn_spec = \<lparr>size_spec = 1, direction = ''both'', cell_type = ''GRU''\<rparr>\<rparr> \<and>
   ((\<exists>enc. RecurrentEncoder_init r n inp s c d p = Inr enc) \<longleftrightarrow>
      0 < s \<and> d \<in> {''forward'', ''backward'', ''both''} \<and>
      c \<in> {''GRU'', ''LSTM'', ''NematusGRU''} \<and>
      (p = NaN \<or> (\<exists>x. p = Finite x \<and> 0 < x \<and> x \<le> 1))) \<and>
   ((\<exists>enc. RecurrentEncoder_init r n inp s c d p = Inr enc) \<or>
    (\<exists>msg. RecurrentEncoder_init r n inp s c d p = Inl (ValueError msg) \<and>
       (names_field ''RNN size'' msg \<and> s \<le> 0 \<or>
        names_field ''RNN direction'' msg \<and> d \<notin> {''forward'', ''backward'', ''both''} \<or>
        names_field ''RNN cell type'' msg \<and> c \<notin> {''GRU'', ''LSTM'', ''NematusGRU''} \<or>
        names_field ''Dropout keep prob'' msg \<and>
          (float_le p (Finite 0) \<or> float_gt p (Finite 1)))))"
proof (intro conjI)
  show "RecurrentEncoder_init r n inp 1 ''GRU'' ''both'' NaN =
     Inr \<lparr>name = n, input_sequence = inp, dropout_keep_prob = NaN,
          rnn_spec = \<lparr>size_spec = 1, direction = ''both'', cell_type = ''GRU''\<rparr>\<rparr>"
    by (simp add: RecurrentEncoder_init_def make_rnn_spec_def RNN_DIRECTIONS_def
        RNN_CELL_TYPES_def float_gt_def)
next
  show "(\<exists>enc. RecurrentEncoder_init r n inp s c d p = Inr enc) \<longleftrightarrow>
      0 < s \<and> d \<in> {''forward'', ''backward'', ''both''} \<and>
      c \<in> {''GRU'', ''LSTM'', ''NematusGRU''} \<and>
      (p = NaN \<or> (\<exists>x. p = Finite x \<and> 0 < x \<and> x \<le> 1))"
    unfolding init_ok make_rnn_spec_ok dropout_guard by blast
next
  show "(\<exists>enc. RecurrentEncoder_init r n inp s c d p = Inr enc) \<or>
    (\<exists>msg. RecurrentEncoder_init r n inp s c d p = Inl (ValueError msg) \<and>
       (names_field ''RNN size'' msg \<and> s \<le> 0 \<or>
        names_field ''RNN direction'' msg \<and> d \<notin> {''forward'', ''backward'', ''both''} \<or>
        names_field ''RNN cell type'' msg \<and> c \<notin> {''GRU'', ''LSTM'', ''NematusGRU''} \<or>
        names_field ''Dropout keep prob'' msg \<and>
          (float_le p (Finite 0) \<or> float_gt p (Finite 1))))"
  proof -
    consider (size) "s \<le> 0"
      | (dir) "0 < s" "d \<notin> {''forward'', ''backward'', ''both''}"
      | (cell) "0 < s" "d \<in> {''forward'', ''backward'', ''both''}"
          "c \<notin> {''GRU'', ''LSTM'', ''NematusGRU''}"
      | (drop) "0 < s" "d \<in> {''forward'', ''backward'', ''both''}"
          "c \<in> {''GRU'', ''LSTM'', ''NematusGRU''}"
          "float_le p (Finite 0) \<or> float_gt p (Finite 1)"
      | (ok) "0 < s" "d \<in> {''forward'', ''backward'', ''both''}"
          "c \<in> {''GRU'', ''LSTM'', ''NematusGRU''}"
          "\<not> (float_le p (Finite 0) \<or> float_gt p (Finite 1))"
      by fastforce
    then show ?thesis
    proof cases
      case size
      then show ?thesis by (simp only: init_cases if_True) (simp add: names_field_def)
    next
      case dir
      then have "RecurrentEncoder_init r n inp s c d p =
          Inl (ValueError (''RNN direction must be one of ''
                @ str_list (map repr_str RNN_DIRECTIONS) @ ''. '' @ d @ '' given.''))"
        by (simp only: init_cases) simp
      then show ?thesis using dir by (simp add: names_field_def)
    next
      case cell
      then have "RecurrentEncoder_init r n inp s c d p =
          Inl (ValueError (''RNN cell type must be one of '' @ r @ ''. '' @ c @ '' given.''))"
        by (simp only: init_cases) simp
      then show ?thesis using cell by (simp add: names_field_def)
    next
      case drop
      then have "RecurrentEncoder_init r n inp s c d p =
          Inl (ValueError ''Dropout keep prob must be inside (0,1].'')"
        by (simp only: init_cases) auto
      then show ?thesis using drop by (simp add: names_field_def)
    next
      case ok
      then have "RecurrentEncoder_init r n inp s c d p =
          Inr \<lparr>name = n, input_sequence = inp, dropout_keep_prob = p,
          rnn_spec = \<lparr>size_spec = s, direction = d, cell_type = c\<rparr>\<rparr>"
        by (simp only: init_cases) auto
      then show ?thesis by simp
    qed
  qed
  
qed

subsection \<open>Sequence regressor\<close>

lemma foldr_min_length_0:
  "foldr min (map length rs) n = 0 \<longleftrightarrow> n = 0 \<or> (\<exists>r \<in> set rs. r = [])"
  by (induction rs) (auto simp: min_def)

lemma zip_star_Nil:
  "zip_star rows = [] \<longleftrightarrow> rows = [] \<or> (\<exists>r \<in> set rows. r = [])"
  by (cases rows) (auto simp: zip_star_def foldr_min_length_0)

lemma zip_star_first:
  assumes "rows \<noteq> []" "\<forall>r \<in> set rows. r \<noteq> []"
  shows "\<exists>rest. zip_star rows = map (\<lambda>r. r ! 0) rows # rest"
proof -
  from assms obtain r rs where rows: "rows = r # rs" by (cases rows) auto
  let ?n = "foldr min (map length rs) (length r)"
  from assms rows have "?n \<noteq> 0" by (subst foldr_min_length_0) auto
  then have "[0 ..< ?n] = 0 # [1 ..< ?n]" by (simp add: upt_conv_Cons)
  then show ?thesis
    unfolding zip_star_def rows by (simp del: upt_Suc)
qed

text \<open>
  Claim C9. When the dataset has no series named \<open>data_id\<close>, \<open>feed_dict\<close> returns without
  an error a dictionary that binds the training-mode flag to the \<open>train\<close> argument and
  nothing else; the ground-truth placeholder is unbound.
\<close>

theorem feed_dict_without_targets:
  "dataset data_id = None \<Longrightarrow>
     feed_dict dataset data_id train = Inr [train_mode \<mapsto> Mode train] \<and>
     [train_mode \<mapsto> Mode train] gt_inputs = (None :: 'a feed_value option)"
  for dataset :: "string \<rightharpoonup> 'a list list"
  by (simp add: feed_dict_def)

text \<open>
  Claim C10. When the series is present, \<open>feed_dict\<close> binds as targets the first element of
  every row (\<open>series[i][0]\<close>) together with the training-mode flag, provided that the series
  is not empty and no row is empty; otherwise it raises \<open>IndexError\<close>.
\<close>

theorem feed_dict_binds_first_elements:
  "dataset data_id = Some rows \<Longrightarrow>
     feed_dict dataset data_id train =
       (if rows \<noteq> [] \<and> (\<forall>r \<in> set rows. r \<noteq> [])
        then Inr [gt_inputs \<mapsto> Targets (map (\<lambda>r. r ! 0) rows), train_mode \<mapsto> Mode train]
        else Inl IndexError)"
proof (cases "rows \<noteq> [] \<and> (\<forall>r \<in> set rows. r \<noteq> [])")
  case True
  then obtain rest where "zip_star rows = map (\<lambda>r. r ! 0) rows # rest"
    using zip_star_first by blast
  moreover assume "dataset data_id = Some rows"
  ultimately show ?thesis using True by (simp add: feed_dict_def)
next
  case False
  then have "zip_star rows = []" by (subst zip_star_Nil) auto
  moreover assume "dataset data_id = Some rows"
  ultimately show ?thesis using False by (simp add: feed_dict_def)
qed

theorem feed_dict_without_targets_witness:
  "feed_dict [''source'' \<mapsto> [[1::int]]] ''target'' True = Inr [train_mode \<mapsto> Mode True] \<and>
   [train_mode \<mapsto> Mode True] gt_inputs = (None :: int feed_value option)"
  using feed_dict_without_targets [of "[''source'' \<mapsto> [[1::int]]]" "''target''" True]
  by simp

theorem feed_dict_binds_first_elements_witness:
  "feed_dict [''target'' \<mapsto> [[3::int, 4], [5]]] ''target'' False
     = Inr [gt_inputs \<mapsto> Targets [3, 5], train_mode \<mapsto> Mode False] \<and>
   feed_dict [''target'' \<mapsto> [[3::int, 4], []]] ''target'' False = Inl IndexError \<and>
   feed_dict [''target'' \<mapsto> ([] :: int list list)] ''target'' False = Inl IndexError"
  using feed_dict_binds_first_elements [of "[''target'' \<mapsto> [[3::int, 4], [5]]]" "''target''"
      "[[3, 4], [5]]" False]
    feed_dict_binds_first_elements [of "[''target'' \<mapsto> [[3::int, 4], []]]" "''target''"
      "[[3, 4], []]" False]
    feed_dict_binds_first_elements [of "[''target'' \<mapsto> ([] :: int list list)]" "''target''"
      "[]" False]
  by simp

lemma sequence_err_map_Inr:
  "\<forall>x \<in> set xs. h x = Inr (g x) \<Longrightarrow> sequence_err (map h xs) = Inr (map g xs)"
  by (induction xs) auto

lemma broadcast2_same_shape:
  assumes "length xs = length ys" "\<forall>i < length xs. length (xs ! i) = length (ys ! i)"
  shows "broadcast2 f xs ys = Inr (map2 (map2 f) xs ys)"
proof -
  have "\<forall>p \<in> set (zip xs ys). (\<lambda>(x, y). broadcast1 f x y) p = Inr ((\<lambda>(x, y). map2 f x y) p)"
    using assms by (auto simp: set_zip broadcast1_def)
  then have "sequence_err (map2 (broadcast1 f) xs ys) = Inr (map2 (map2 f) xs ys)"
    by (rule sequence_err_map_Inr)
  then show ?thesis
    using assms(1) by (simp add: broadcast2_def)
qed

lemma subtract_targets:
  assumes "list_all (\<lambda>row. length row = 1) preds" "length gt = length preds"
  shows "tf_subtract preds (expand_dims1 gt) = Inr (map2 (\<lambda>p g. [p ! 0 - g]) preds gt)"
proof -
  have "map2 (map2 (-)) preds (expand_dims1 gt) = map2 (\<lambda>p g. [p ! 0 - g]) preds gt"
    using assms(2) [symmetric] assms(1)
  proof (induction preds gt rule: list_induct2)
    case Nil
    then show ?case by (simp add: expand_dims1_def)
  next
    case (Cons p ps g gs)
    then obtain x where "p = [x]" by (cases p) auto
    with Cons show ?case by (simp add: expand_dims1_def)
  qed
  moreover have "\<forall>i < length preds. length (preds ! i) = length (expand_dims1 gt ! i)"
    using assms by (simp add: expand_dims1_def list_all_length)
  ultimately show ?thesis
    using assms(2) by (simp add: tf_subtract_def broadcast2_same_shape expand_dims1_def)
qed

lemma reduce_sum_square_targets:
  "length gt = length preds \<Longrightarrow>
     reduce_sum_all (square (map2 (\<lambda>p g. [p ! 0 - g]) preds gt)) =
       (\<Sum>(p, g)\<leftarrow>zip preds gt. (p ! 0 - g)\<^sup>2)"
  by (induction gt preds rule: list_induct2)
    (simp_all add: reduce_sum_all_def square_def power2_eq_square)

lemma graph_of_input:
  assumes "mlp_input_of encoders = Inr x"
    and "list_all (\<lambda>row. length row = 1) (lin (mp x layers act train keep) 1)"
    and "length gt = length (lin (mp x layers act train keep) 1)"
  shows "SequenceRegressor_graph mp lin encoders layers act keep gt train =
           Inr (lin (mp x layers act train keep) 1,
                \<Sum>(p, g)\<leftarrow>zip (lin (mp x layers act train keep) 1) gt. (p ! 0 - g)\<^sup>2)"
  using assms subtract_targets [OF assms(2,3)] reduce_sum_square_targets [OF assms(3)]
  by (simp add: SequenceRegressor_graph_def assert_shape_col_def Let_def)

text \<open>
  Claim C4. For every list of encoders the input fed to the perceptron is the elementwise
  difference of the first encoder's output and the second encoder's output: the
  concatenation computed first is discarded, so encoders after the second change neither
  the input, nor the prediction, nor the loss. When the two outputs have the same shape,
  the graph applies \<open>multilayer_projection\<close> to exactly that difference and \<open>linear\<close> to
  its result; when the projection gives one scalar for each target, these scalars are the
  prediction and the loss is the sum over the batch of the squared differences between
  prediction and target. A list of fewer than two encoders builds no graph.
\<close>

theorem regressor_uses_first_two_encoders:
  "mlp_input_of (e0 # e1 # others) = mlp_input_of [e0, e1] \<and>
   SequenceRegressor_graph mp lin (e0 # e1 # others) layers act keep gt train =
     SequenceRegressor_graph mp lin [e0, e1] layers act keep gt train \<and>
   (length (encoded e0) = length (encoded e1) \<and>
    (\<forall>i < length (encoded e0). length (encoded e0 ! i) = length (encoded e1 ! i)) \<longrightarrow>
      mlp_input_of (e0 # e1 # others) =
        Inr (map2 (map2 (\<lambda>x y. x - y)) (encoded e0) (encoded e1)) \<and>
      (let preds = lin (mp (map2 (map2 (\<lambda>x y. x - y)) (encoded e0) (encoded e1))
                          layers act train keep) 1
       in list_all (\<lambda>row. length row = 1) preds \<and> length gt = length preds \<longrightarrow>
            SequenceRegressor_graph mp lin (e0 # e1 # others) layers act keep gt train =
              Inr (preds, \<Sum>(p, g)\<leftarrow>zip preds gt. (p ! 0 - g)\<^sup>2))) \<and>
   (\<exists>err. SequenceRegressor_graph mp lin [] layers act keep gt train = Inl err) \<and>
   SequenceRegressor_graph mp lin [e0] layers act keep gt train = Inl IndexError"
proof -
  have a: "mlp_input_of (e0 # e1 # others) = tf_subtract (encoded e0) (encoded e1)" for others
    by (simp add: mlp_input_of_def tf_concat1_def)
  have b: "SequenceRegressor_graph mp lin (e0 # e1 # others) layers act keep gt train =
     SequenceRegressor_graph mp lin [e0, e1] layers act keep gt train"
    by (simp add: a SequenceRegressor_graph_def)
  have c: "mlp_input_of (e0 # e1 # others) =
        Inr (map2 (map2 (\<lambda>x y. x - y)) (encoded e0) (encoded e1))"
    if "length (encoded e0) = length (encoded e1)"
      "\<forall>i < length (encoded e0). length (encoded e0 ! i) = length (encoded e1 ! i)"
    using that by (simp add: a tf_subtract_def broadcast2_same_shape)
  have d: "SequenceRegressor_graph mp lin [] layers act keep gt train =
      Inl (ValueError ''List argument values to ConcatV2 Op is too short'')"
    by (simp add: SequenceRegressor_graph_def mlp_input_of_def tf_concat1_def)
  have e: "SequenceRegressor_graph mp lin [e0] layers act keep gt train = Inl IndexError"
    by (simp add: SequenceRegressor_graph_def mlp_input_of_def tf_concat1_def)
  show ?thesis
    using a [of others] a [of "[]"] b c d e graph_of_input [OF c]
    by (auto simp add: Let_def)
qed

lemma map2_minus_self: "map2 (-) (r :: real list) r = replicate (length r) 0"
  by (induction r) auto

lemma subtract_identical:
  assumes "\<forall>row \<in> set X. length row = d"
  shows "tf_subtract X X = Inr (replicate (length X) (replicate d 0))"
proof -
  have "map2 (map2 (-)) X X = replicate (length X) (replicate d 0)"
    using assms by (induction X) (auto simp: map2_minus_self)
  then show ?thesis
    by (simp add: tf_subtract_def broadcast2_same_shape)
qed

lemma subtract_zero_targets:
  assumes "list_all (\<lambda>row. length row = 1) t"
  shows "tf_subtract t (expand_dims1 (replicate (length t) 0)) = Inr t"
proof -
  have "map2 (map2 (-)) t (expand_dims1 (replicate (length t) 0)) = t"
    using assms
  proof (induction t)
    case Nil
    then show ?case by (simp add: expand_dims1_def)
  next
    case (Cons row t)
    then obtain x where "row = [x]" by (cases row) auto
    with Cons show ?case by (simp add: expand_dims1_def)
  qed
  moreover have "\<forall>i < length t. length (t ! i) = length (expand_dims1 (replicate (length t) 0) ! i)"
    using assms by (simp add: expand_dims1_def list_all_length)
  ultimately show ?thesis
    by (simp add: tf_subtract_def broadcast2_same_shape expand_dims1_def)
qed

lemma reduce_sum_square_col:
  assumes "list_all (\<lambda>row. length row = 1) t"
  shows "reduce_sum_all (square t) = (\<Sum>row\<leftarrow>t. (row ! 0)\<^sup>2)"
  using assms
proof (induction t)
  case Nil
  then show ?case by (simp add: reduce_sum_all_def square_def)
next
  case (Cons row t)
  then obtain x where "row = [x]" by (cases row) auto
  with Cons show ?case by (simp add: reduce_sum_all_def square_def power2_eq_square)
qed

lemma sum_list_squares_zero:
  "(\<Sum>row\<leftarrow>t. ((row ! 0)::real)\<^sup>2) = 0 \<longleftrightarrow> (\<forall>row \<in> set t. row ! 0 = 0)"
proof (induction t)
  case Nil
  then show ?case by simp
next
  case (Cons r t)
  have "0 \<le> (\<Sum>row\<leftarrow>t. (row ! 0)\<^sup>2)"
    by (rule sum_list_nonneg) auto
  then have "(r ! 0)\<^sup>2 + (\<Sum>row\<leftarrow>t. (row ! 0)\<^sup>2) = 0 \<longleftrightarrow>
      (r ! 0)\<^sup>2 = 0 \<and> (\<Sum>row\<leftarrow>t. (row ! 0)\<^sup>2) = 0"
    by (simp add: add_nonneg_eq_0_iff)
  with Cons show ?case by simp
qed

text \<open>
  Claim C5, amended. On a batch whose targets are all 0 and on which the two encoders give
  identical outputs, the input of the perceptron is the zero matrix and the training loss
  is the sum over the batch of the squared predictions for that zero input. It is 0
  exactly when every prediction for the zero input is 0, which the perceptron's biases and
  nonlinearity decide.
\<close>

theorem regressor_loss_on_zero_input:
  assumes "encoded e0 = encoded e1"
    and "\<forall>row \<in> set (encoded e0). length row = d"
    and "gt = replicate (length (encoded e0)) 0"
    and "preds = lin (mp (replicate (length (encoded e0)) (replicate d 0)) layers act train keep) 1"
    and "length preds = length (encoded e0)"
    and "list_all (\<lambda>row. length row = 1) preds"
  shows "SequenceRegressor_graph mp lin (e0 # e1 # others) layers act keep gt train =
           Inr (preds, (\<Sum>row\<leftarrow>preds. (row ! 0)\<^sup>2)) \<and>
         ((\<Sum>row\<leftarrow>preds. (row ! 0)\<^sup>2) = 0 \<longleftrightarrow> (\<forall>row \<in> set preds. row ! 0 = 0))"
proof -
  have "mlp_input_of (e0 # e1 # others) = Inr (replicate (length (encoded e0)) (replicate d 0))"
    using assms(1,2) subtract_identical [of "encoded e0" d]
    by (simp add: mlp_input_of_def tf_concat1_def)
  moreover have "assert_shape_col preds = Inr ()"
    using assms(6) by (simp add: assert_shape_col_def)
  moreover have "tf_subtract preds (expand_dims1 gt) = Inr preds"
    using subtract_zero_targets [OF assms(6)] assms(3,5) by simp
  ultimately show ?thesis
    using assms(4) reduce_sum_square_col [OF assms(6)]
    by (simp add: SequenceRegressor_graph_def sum_list_squares_zero Let_def)
qed

lemma sigmoid_0: "sigmoid 0 = 1 / 2"
  by (simp add: sigmoid_def)

text \<open>
  The claim as the specification states it (the loss is 0 on such a batch) fails for a
  perceptron with one sigmoid hidden unit and no bias: the prediction for the zero input
  is 1/2 and the loss of a batch of one example is 1/4.
\<close>

theorem regressor_zero_loss_counterexample:
  "SequenceRegressor_graph (spec_multilayer_projection [([[1]], [0], [True])])
       (spec_linear [1] 0) [\<lparr>encoded = [[3]]\<rparr>, \<lparr>encoded = [[3]]\<rparr>] (Some [1]) sigmoid 1 [0] False
     = Inr ([[1 / 2]], 1 / 4) \<and> (1 / 4 :: real) \<noteq> 0"
  by (simp add: SequenceRegressor_graph_def mlp_input_of_def tf_concat1_def tf_subtract_def
      broadcast2_def broadcast1_def assert_shape_col_def expand_dims1_def reduce_sum_all_def
      square_def affine_def dropout_def spec_linear_def sigmoid_0)

theorem regressor_loss_on_zero_input_witness:
  "SequenceRegressor_graph (spec_multilayer_projection [([[1]], [0], [True])])
       (spec_linear [1] 0) [\<lparr>encoded = [[3]]\<rparr>, \<lparr>encoded = [[3]]\<rparr>] (Some [1]) tanh 1 [0] False
     = Inr ([[0]], 0)"
  using regressor_loss_on_zero_input [of "\<lparr>encoded = [[3]]\<rparr>" "\<lparr>encoded = [[3]]\<rparr>" 1 "[0]"
      "[[0]]" "spec_linear [1] 0" "spec_multilayer_projection [([[1]], [0], [True])]"
      "Some [1]" tanh False 1 "[]"]
  by (simp add: affine_def dropout_def spec_linear_def)

theorem regressor_uses_first_two_encoders_witness:
  "mlp_input_of [\<lparr>encoded = [[3, 5]]\<rparr>, \<lparr>encoded = [[1, 1]]\<rparr>, \<lparr>encoded = [[7, 7, 7]]\<rparr>]
     = Inr [[2, 4]] \<and>
   SequenceRegressor_graph (\<lambda>x l a t k. map (map (\<lambda>v. 2 * v)) x)
       (\<lambda>x n. map (\<lambda>row. [sum_list row]) x)
       [\<lparr>encoded = [[3, 5]]\<rparr>, \<lparr>encoded = [[1, 1]]\<rparr>, \<lparr>encoded = [[7, 7, 7]]\<rparr>]
       None (\<lambda>x. x) 1 [10] False
     = Inr ([[12]], 4)"
proof -
  have shapes: "length (encoded \<lparr>encoded = [[3, 5]]\<rparr>) = length (encoded \<lparr>encoded = [[1, 1]]\<rparr>) \<and>
    (\<forall>i < length (encoded \<lparr>encoded = [[3, 5]]\<rparr>).
       length (encoded \<lparr>encoded = [[3, 5]]\<rparr> ! i) = length (encoded \<lparr>encoded = [[1, 1]]\<rparr> ! i))"
    by simp
  have "mlp_input_of [\<lparr>encoded = [[3, 5]]\<rparr>, \<lparr>encoded = [[1, 1]]\<rparr>, \<lparr>encoded = [[7, 7, 7]]\<rparr>]
     = Inr (map2 (map2 (\<lambda>x y. x - y)) (encoded \<lparr>encoded = [[3, 5]]\<rparr>)
         (encoded \<lparr>encoded = [[1, 1]]\<rparr>)) \<and>
     (let preds = (\<lambda>x n. map (\<lambda>row. [sum_list row]) x)
             ((\<lambda>x l a t k. map (map (\<lambda>v. 2 * v)) x)
                (map2 (map2 (\<lambda>x y. x - y)) (encoded \<lparr>encoded = [[3, 5]]\<rparr>)
                   (encoded \<lparr>encoded = [[1, 1]]\<rparr>)) None (\<lambda>x. x) False 1) 1
      in list_all (\<lambda>row. length row = 1) preds \<and> length [10::real] = length preds \<longrightarrow>
           SequenceRegressor_graph (\<lambda>x l a t k. map (map (\<lambda>v. 2 * v)) x)
               (\<lambda>x n. map (\<lambda>row. [sum_list row]) x)
               [\<lparr>encoded = [[3, 5]]\<rparr>, \<lparr>encoded = [[1, 1]]\<rparr>, \<lparr>encoded = [[7, 7, 7]]\<rparr>]
               None (\<lambda>x. x) 1 [10] False =
             Inr (preds, \<Sum>(p, g)\<leftarrow>zip preds [10]. (p ! 0 - g)\<^sup>2))"
    using regressor_uses_first_two_encoders [of "\<lparr>encoded = [[3, 5]]\<rparr>" "\<lparr>encoded = [[1, 1]]\<rparr>"
      "[\<lparr>encoded = [[7, 7, 7]]\<rparr>]" "\<lambda>x l a t k. map (map (\<lambda>v. 2 * v)) x"
      "\<lambda>x n. map (\<lambda>row. [sum_list row]) x" None "\<lambda>x. x" 1 "[10]" False]
      shapes by blast
  then show ?thesis by (simp add: Let_def)
qed

subsection \<open>Reinforce objective\<close>

lemma dual_val_simps:
  "val (0 :: dual) = 0" "val (1 :: dual) = 1"
  "val (a + b) = val a + val b" "val (- a) = - val a" "val (a - b) = val a - val b"
  "val (a * b) = val a * val b"
  "val (tf_constant c) = c" "val (stop_gradient a) = val a"
  "val (tf_div a b) = val a / val b" "val (tf_exp a) = exp (val a)" "val (tf_log a) = ln (val a)"
  by (simp_all add: zero_dual_def one_dual_def plus_dual_def uminus_dual_def minus_dual_def
      times_dual_def tf_constant_def stop_gradient_def tf_div_def tf_exp_def tf_log_def)

lemma dual_grad_simps:
  "grad (0 :: dual) = 0" "grad (1 :: dual) = 0"
  "grad (a + b) = grad a + grad b" "grad (- a) = - grad a" "grad (a - b) = grad a - grad b"
  "grad (a * b) = val a * grad b + grad a * val b"
  "grad (tf_constant c) = 0" "grad (stop_gradient a) = 0"
  by (simp_all add: zero_dual_def one_dual_def plus_dual_def uminus_dual_def minus_dual_def
      times_dual_def tf_constant_def stop_gradient_def)

lemma val_sum_list: "val (sum_list xs) = sum_list (map val xs)"
  by (induction xs) (simp_all add: dual_val_simps)

lemma val_sum: "val (sum f {..<n}) = (\<Sum>i<n. val (f i))" for n :: nat
  by (induction n) (simp_all add: dual_val_simps)

lemma grad_sum: "grad (sum f {..<n}) = (\<Sum>i<n. grad (f i))" for n :: nat
  by (induction n) (simp_all add: dual_grad_simps)

lemma sum_list_nth_lessThan:
  "sum_list xs = (\<Sum>i<length xs. xs ! i)" for xs :: "'a::comm_monoid_add list"
  by (simp add: sum_list_sum_nth atLeast0LessThan)

lemma length_reduce_sum0:
  "\<forall>row \<in> set t. length row = n \<Longrightarrow> length (reduce_sum0 n t) = n"
  by (induction t) (simp_all add: reduce_sum0_def)

lemma nth_reduce_sum0:
  fixes t :: "'a::comm_monoid_add list list"
  assumes "\<forall>row \<in> set t. length row = n" "b < n"
  shows "reduce_sum0 n t ! b = (\<Sum>s<length t. t ! s ! b)"
  using assms(1)
proof (induction t)
  case Nil
  then show ?case using assms(2) by (simp add: reduce_sum0_def)
next
  case (Cons row t)
  then have ih: "reduce_sum0 n t ! b = (\<Sum>s<length t. t ! s ! b)"
    and len: "length (reduce_sum0 n t) = n" "length row = n"
    by (simp_all add: length_reduce_sum0)
  have "reduce_sum0 n (row # t) = map2 (+) row (reduce_sum0 n t)"
    by (simp add: reduce_sum0_def)
  then have "reduce_sum0 n (row # t) ! b = row ! b + reduce_sum0 n t ! b"
    using len assms(2) by simp
  also have "\<dots> = (\<Sum>s<Suc (length t). (row # t) ! s ! b)"
    by (subst sum.lessThan_Suc_shift) (simp add: ih)
  finally show ?case by simp
qed

lemma word_logprobs_shape:
  assumes "well_shaped dec r"
  shows "length (word_logprobs r) = length (logits r)"
    and "\<forall>row \<in> set (word_logprobs r). length row = batch_size dec"
    and "\<forall>t < length (logits r). \<forall>b < batch_size dec.
           word_logprobs r ! t ! b =
             - sparse_softmax_cross_entropy_with_logits (output_symbols r ! t ! b)
                 (logits r ! t ! b)"
proof -
  from assms have l2: "list_all2 (list_all2 (\<lambda>label lg. label < length lg))
      (output_symbols r) (logits r)"
    and w: "\<forall>row \<in> set (output_symbols r). length row = batch_size dec"
    by (simp_all add: well_shaped_def valid_labels_def list_all_iff)
  from l2 have len: "length (output_symbols r) = length (logits r)"
    by (rule list_all2_lengthD)
  from l2 have rows: "\<forall>t < length (logits r).
      length (output_symbols r ! t) = length (logits r ! t)"
    using len by (auto dest: list_all2_nthD2 list_all2_lengthD)
  from w len have wt: "\<forall>t < length (logits r). length (output_symbols r ! t) = batch_size dec"
    by simp
  show "length (word_logprobs r) = length (logits r)"
    using len by (simp add: word_logprobs_def)
  show "\<forall>row \<in> set (word_logprobs r). length row = batch_size dec"
    using len rows wt by (auto simp: word_logprobs_def set_zip)
  show "\<forall>t < length (logits r). \<forall>b < batch_size dec.
           word_logprobs r ! t ! b =
             - sparse_softmax_cross_entropy_with_logits (output_symbols r ! t ! b)
                 (logits r ! t ! b)"
    using len rows wt by (simp add: word_logprobs_def)
qed

lemma length_sent_logprobs:
  "well_shaped dec r \<Longrightarrow> length (sent_logprobs dec r) = batch_size dec"
  by (simp add: sent_logprobs_def length_reduce_sum0 word_logprobs_shape(2))

lemma nth_sent_logprobs:
  assumes "well_shaped dec r" "b < batch_size dec"
  shows "sent_logprobs dec r ! b =
     (\<Sum>t<length (logits r).
        - sparse_softmax_cross_entropy_with_logits (output_symbols r ! t ! b) (logits r ! t ! b))"
proof -
  have "sent_logprobs dec r ! b = (\<Sum>t<length (word_logprobs r). word_logprobs r ! t ! b)"
    unfolding sent_logprobs_def
    using word_logprobs_shape(2) [OF assms(1)] assms(2) by (rule nth_reduce_sum0)
  then show ?thesis
    using word_logprobs_shape(1,3) [OF assms(1)] assms(2) by simp
qed

lemma exp_less_sum_exp:
  fixes vs :: "real list"
  assumes "l < length vs" "2 \<le> length vs"
  shows "exp (vs ! l) < (\<Sum>v\<leftarrow>vs. exp v)"
proof -
  have "(\<Sum>v\<leftarrow>vs. exp v) = (\<Sum>i<length vs. exp (vs ! i))"
    by (simp add: sum_list_sum_nth atLeast0LessThan)
  also have "\<dots> = exp (vs ! l) + (\<Sum>i \<in> {..<length vs} - {l}. exp (vs ! i))"
    using assms(1) by (simp add: sum.remove)
  finally have eq: "(\<Sum>v\<leftarrow>vs. exp v) = exp (vs ! l) + (\<Sum>i \<in> {..<length vs} - {l}. exp (vs ! i))" .
  obtain j where "j < length vs" "j \<noteq> l"
  proof (cases "l = 0")
    case True
    with assms(2) have "1 < length vs" "1 \<noteq> l" by simp_all
    then show ?thesis by (rule that)
  next
    case False
    with assms(2) have "0 < length vs" "0 \<noteq> l" by auto
    then show ?thesis by (rule that)
  qed
  then have "{..<length vs} - {l} \<noteq> {}" by auto
  then have "0 < (\<Sum>i \<in> {..<length vs} - {l}. exp (vs ! i))"
    by (intro sum_pos) simp_all
  with eq show ?thesis by simp
qed

lemma val_word_logprob_negative:
  assumes "label < length lg" "2 \<le> length lg"
  shows "val (- sparse_softmax_cross_entropy_with_logits label lg) < 0"
proof -
  let ?vs = "map val lg"
  have s: "val (sum_list (map tf_exp lg)) = (\<Sum>v\<leftarrow>?vs. exp v)"
    by (simp add: val_sum_list dual_val_simps comp_def)
  have "exp (?vs ! label) < (\<Sum>v\<leftarrow>?vs. exp v)"
    using assms by (intro exp_less_sum_exp) simp_all
  then have "ln (exp (?vs ! label)) < ln (\<Sum>v\<leftarrow>?vs. exp v)"
    by (subst ln_less_cancel_iff) (simp_all add: less_trans [OF exp_gt_zero])
  then have "val (lg ! label) < ln (\<Sum>v\<leftarrow>?vs. exp v)"
    using assms(1) by simp
  then show ?thesis
    by (simp add: sparse_softmax_cross_entropy_with_logits_def dual_val_simps s)
qed

text \<open>
  Claim C6. For a sampled sequence, the sentence log-probability of every example is the
  sum, over all time steps the decoding loop produced, of the negative cross-entropy
  between the sampled symbol and the logits of that step. No step is masked: the sum does
  not consult the symbols to find the end of the sequence, and with a vocabulary of at
  least two words each step contributes a strictly negative term.
\<close>

theorem sentence_logprob_sums_all_positions:
  assumes "well_shaped dec r" "b < batch_size dec"
  shows "sent_logprobs dec r ! b =
     (\<Sum>t<length (logits r).
        - sparse_softmax_cross_entropy_with_logits (output_symbols r ! t ! b) (logits r ! t ! b)) \<and>
     (\<forall>t < length (logits r). 2 \<le> length (logits r ! t ! b) \<longrightarrow>
        val (- sparse_softmax_cross_entropy_with_logits (output_symbols r ! t ! b)
               (logits r ! t ! b)) < 0)"
proof (intro conjI allI impI)
  show "sent_logprobs dec r ! b =
     (\<Sum>t<length (logits r).
        - sparse_softmax_cross_entropy_with_logits (output_symbols r ! t ! b) (logits r ! t ! b))"
    using assms by (rule nth_sent_logprobs)
next
  fix t
  assume t: "t < length (logits r)" and v: "2 \<le> length (logits r ! t ! b)"
  from assms(1) have l2: "list_all2 (list_all2 (\<lambda>label lg. label < length lg))
      (output_symbols r) (logits r)"
    and w: "\<forall>row \<in> set (output_symbols r). length row = batch_size dec"
    by (simp_all add: well_shaped_def valid_labels_def list_all_iff)
  from l2 t have row: "list_all2 (\<lambda>label lg. label < length lg)
      (output_symbols r ! t) (logits r ! t)"
    by (auto dest: list_all2_nthD2)
  from l2 t w have "length (output_symbols r ! t) = batch_size dec"
    by (auto dest: list_all2_lengthD)
  with row assms(2) have "output_symbols r ! t ! b < length (logits r ! t ! b)"
    by (auto dest: list_all2_nthD)
  then show "val (- sparse_softmax_cross_entropy_with_logits (output_symbols r ! t ! b)
               (logits r ! t ! b)) < 0"
    using v by (rule val_word_logprob_negative)
qed

lemma scored_probs_entry:
  assumes "length R = length P"
    and "\<forall>row \<in> set R. length row = n" "\<forall>row \<in> set P. length row = n"
  shows "\<forall>row \<in> set (map2 (map2 (*)) (map (map (\<lambda>r. stop_gradient (- r))) R) P).
           length row = n"
    and "length (map2 (map2 (*)) (map (map (\<lambda>r. stop_gradient (- r))) R) P) = length R"
    and "\<forall>s < length R. \<forall>b < n.
           map2 (map2 (*)) (map (map (\<lambda>r. stop_gradient (- r))) R) P ! s ! b =
             stop_gradient (- (R ! s ! b)) * (P ! s ! b)"
proof -
  show "\<forall>row \<in> set (map2 (map2 (*)) (map (map (\<lambda>r. stop_gradient (- r))) R) P).
           length row = n"
    using assms by (auto simp: set_zip)
  show "length (map2 (map2 (*)) (map (map (\<lambda>r. stop_gradient (- r))) R) P) = length R"
    using assms(1) by simp
  show "\<forall>s < length R. \<forall>b < n.
           map2 (map2 (*)) (map (map (\<lambda>r. stop_gradient (- r))) R) P ! s ! b =
             stop_gradient (- (R ! s ! b)) * (P ! s ! b)"
    using assms by simp
qed

lemma length_sample_results:
  "length (sample_results self decoding_loop) = nat (sample_size self)"
  by (simp add: sample_results_def)

lemma nth_sample_results:
  "i < nat (sample_size self) \<Longrightarrow>
     sample_results self decoding_loop ! i = decoding_loop i False True (temperature self)"
  by (simp add: sample_results_def)

lemma rewards_used_shape:
  assumes "\<forall>row \<in> set R. length row = n"
  shows "length (rewards_used self dec R vars) = length R"
    and "\<forall>row \<in> set (rewards_used self dec R vars). length row = n"
  using assms by (auto simp: rewards_used_def)

lemma softmax0_shape:
  assumes "\<forall>row \<in> set t. length row = n"
  shows "length (softmax0 n t) = length t"
    and "\<forall>row \<in> set (softmax0 n t). length row = n"
proof -
  have "length (reduce_sum0 n (map (map tf_exp) t)) = n"
    using assms by (intro length_reduce_sum0) auto
  with assms show "\<forall>row \<in> set (softmax0 n t). length row = n"
    by (auto simp: softmax0_def Let_def)
  show "length (softmax0 n t) = length t"
    by (simp add: softmax0_def Let_def)
qed

lemma probs_used_shape:
  assumes "\<forall>row \<in> set t. length row = batch_size dec"
  shows "length (probs_used self dec t) = length t"
    and "\<forall>row \<in> set (probs_used self dec t). length row = batch_size dec"
proof -
  have sc: "\<forall>row \<in> set (map (map (\<lambda>x. x * tf_constant (alpha self))) t).
      length row = batch_size dec"
    using assms by auto
  show "length (probs_used self dec t) = length t"
    using softmax0_shape(1) [OF sc] by (simp add: probs_used_def)
  show "\<forall>row \<in> set (probs_used self dec t). length row = batch_size dec"
    using softmax0_shape(2) [OF sc] assms by (simp add: probs_used_def)
qed

lemma val_reduce_sum:
  assumes "\<forall>row \<in> set t. length row = n"
  shows "val (reduce_sum t) = (\<Sum>s<length t. \<Sum>b<n. val (t ! s ! b))"
proof -
  have "val (reduce_sum t) = (\<Sum>s<length t. val (sum_list (t ! s)))"
    by (simp add: reduce_sum_def sum_list_nth_lessThan val_sum)
  also have "\<dots> = (\<Sum>s<length t. \<Sum>b<n. val (t ! s ! b))"
    using assms by (intro sum.cong) (simp_all add: sum_list_nth_lessThan val_sum)
  finally show ?thesis .
qed

lemma nth_softmax0:
  assumes "\<forall>row \<in> set t. length row = n" "s < length t" "b < n"
  shows "softmax0 n t ! s ! b =
           tf_div (tf_exp (t ! s ! b)) (\<Sum>s'<length t. tf_exp (t ! s' ! b))"
proof -
  let ?e = "map (map tf_exp) t"
  have rows: "\<forall>row \<in> set ?e. length row = n"
    using assms(1) by auto
  have "reduce_sum0 n ?e ! b = (\<Sum>s'<length ?e. ?e ! s' ! b)"
    using rows assms(3) by (rule nth_reduce_sum0)
  also have "\<dots> = (\<Sum>s'<length t. tf_exp (t ! s' ! b))"
    using assms(1,3) by (intro sum.cong) simp_all
  finally have z: "reduce_sum0 n ?e ! b = (\<Sum>s'<length t. tf_exp (t ! s' ! b))" .
  have lz: "length (reduce_sum0 n ?e) = n"
    using rows by (rule length_reduce_sum0)
  have "softmax0 n t ! s ! b = tf_div (?e ! s ! b) (reduce_sum0 n ?e ! b)"
    using assms lz by (simp add: softmax0_def Let_def)
  then show ?thesis
    using z assms by simp
qed

lemma rewards_used_entry:
  assumes "s < length t" "b < length (t ! s)"
  shows "rewards_used self dec t vars ! s ! b =
           (if subtract_baseline self
            then t ! s ! b - tf_constant (baseline (update_variables self dec t vars))
            else t ! s ! b)"
  using assms by (simp add: rewards_used_def)

lemma probs_used_entry:
  assumes "\<forall>row \<in> set t. length row = batch_size dec" "s < length t" "b < batch_size dec"
  shows "probs_used self dec t ! s ! b =
           (if normalize self
            then tf_div (tf_exp (t ! s ! b * tf_constant (alpha self)))
                   (\<Sum>s'<length t. tf_exp (t ! s' ! b * tf_constant (alpha self)))
            else t ! s ! b)"
proof (cases "normalize self")
  case False
  then show ?thesis by (simp add: probs_used_def)
next
  case True
  let ?u = "map (map (\<lambda>x. x * tf_constant (alpha self))) t"
  have rows: "\<forall>row \<in> set ?u. length row = batch_size dec"
    using assms(1) by auto
  have len: "s < length ?u"
    using assms(2) by simp
  have "softmax0 (batch_size dec) ?u ! s ! b =
      tf_div (tf_exp (?u ! s ! b)) (\<Sum>s'<length ?u. tf_exp (?u ! s' ! b))"
    using rows len assms(3) by (rule nth_softmax0)
  also have "?u ! s ! b = t ! s ! b * tf_constant (alpha self)"
    using assms by simp
  also have "(\<Sum>s'<length ?u. tf_exp (?u ! s' ! b)) =
      (\<Sum>s'<length t. tf_exp (t ! s' ! b * tf_constant (alpha self)))"
    using assms(1,3) by (intro sum.cong) simp_all
  finally show ?thesis
    using True by (simp add: probs_used_def)
qed

lemma baseline_update:
  "baseline (update_variables self dec t vars) =
     fl32 (reward_sum vars + val (reduce_sum t))
       / max (fl32 (reward_counter vars
                    + fl32 (real_of_int (int (batch_size dec) * sample_size self)))) 1"
  by (simp add: baseline_def update_variables_def)

lemma surrogate_dual:
  assumes "length R = length P" "0 < n"
    and "\<forall>row \<in> set R. length row = n" "\<forall>row \<in> set P. length row = n"
  shows "reduce_mean (reduce_sum0 n
            (map2 (map2 (*)) (map (map (\<lambda>r. stop_gradient (- r))) R) P)) =
           tf_div (\<Sum>b<n. \<Sum>s<length R. stop_gradient (- (R ! s ! b)) * (P ! s ! b))
             (tf_constant (real n))"
proof -
  let ?sc = "map2 (map2 (*)) (map (map (\<lambda>r. stop_gradient (- r))) R) P"
  let ?tot = "reduce_sum0 n ?sc"
  note sp = scored_probs_entry [OF assms(1,3,4)]
  have len: "length ?tot = n"
    using sp(1) by (rule length_reduce_sum0)
  have nth: "?tot ! b = (\<Sum>s<length R. stop_gradient (- (R ! s ! b)) * (P ! s ! b))"
    if "b < n" for b
  proof -
    have "?tot ! b = (\<Sum>s<length ?sc. ?sc ! s ! b)"
      using sp(1) that by (rule nth_reduce_sum0)
    also have "\<dots> = (\<Sum>s<length R. stop_gradient (- (R ! s ! b)) * (P ! s ! b))"
      using sp(2,3) that by simp
    finally show ?thesis .
  qed
  have "sum_list ?tot = (\<Sum>b<n. ?tot ! b)"
    using len by (simp add: sum_list_nth_lessThan)
  also have "\<dots> = (\<Sum>b<n. \<Sum>s<length R. stop_gradient (- (R ! s ! b)) * (P ! s ! b))"
    by (rule sum.cong) (simp_all add: nth)
  finally show ?thesis
    using len by (simp add: reduce_mean_def)
qed

lemma loss_dual:
  assumes S: "0 < sample_size self" and B: "0 < batch_size dec"
    and fit: "\<forall>i < nat (sample_size self).
       well_shaped dec (decoding_loop i False True (temperature self)) \<and>
       length (score (train_inputs dec)
         (output_symbols (decoding_loop i False True (temperature self)))) = batch_size dec"
  shows "loss self dec decoding_loop score vars =
     Inr (tf_div
            (\<Sum>b<batch_size dec. \<Sum>s<nat (sample_size self).
               stop_gradient
                 (- (rewards_used self dec (samples_rewards self dec decoding_loop score) vars
                       ! s ! b))
               * (probs_used self dec (samples_logprobs self dec decoding_loop) ! s ! b))
            (tf_constant (real (batch_size dec)))
          + (if ce_smoothing self > 0 then tf_constant (ce_smoothing self) * cost dec else 0),
          if subtract_baseline self
          then update_variables self dec (samples_rewards self dec decoding_loop score) vars
          else vars)"
proof -
  let ?res = "sample_results self decoding_loop"
  let ?Rraw = "samples_rewards self dec decoding_loop score"
  let ?Praw = "samples_logprobs self dec decoding_loop"
  let ?R = "rewards_used self dec ?Rraw vars"
  let ?P = "probs_used self dec ?Praw"
  have ne: "?res \<noteq> []"
    using S length_sample_results [of self decoding_loop] by auto
  have all: "\<forall>r \<in> set ?res. well_shaped dec r \<and>
      length (score (train_inputs dec) (output_symbols r)) = batch_size dec"
    using fit by (auto simp: sample_results_def)
  then have valid: "list_all valid_labels ?res"
    by (simp add: list_all_iff well_shaped_def)
  have R0: "length ?Rraw = nat (sample_size self)" "\<forall>row \<in> set ?Rraw. length row = batch_size dec"
    using all by (auto simp: samples_rewards_def length_sample_results)
  have P0: "length ?Praw = nat (sample_size self)" "\<forall>row \<in> set ?Praw. length row = batch_size dec"
    using all by (auto simp: samples_logprobs_def length_sample_results length_sent_logprobs)
  have R: "length ?R = nat (sample_size self)" "\<forall>row \<in> set ?R. length row = batch_size dec"
    using rewards_used_shape [OF R0(2)] R0(1) by simp_all
  have P: "length ?P = nat (sample_size self)" "\<forall>row \<in> set ?P. length row = batch_size dec"
    using probs_used_shape [OF P0(2)] P0(1) by simp_all
  have len: "length ?R = length ?P" using R(1) P(1) by simp
  note sd = surrogate_dual [OF len B R(2) P(2), unfolded R(1)]
  show ?thesis
    using ne valid sd by (simp add: loss_def Let_def)
qed

lemma grad_div_constant: "c \<noteq> 0 \<Longrightarrow> grad (tf_div a (tf_constant c)) = grad a / c"
  by (simp add: tf_div_def tf_constant_def)

text \<open>
  Claim C1. For every configuration with at least one sample and a non-empty batch, the
  loss is the sum over the samples, averaged over the batch, of the product of the negated
  reward under \<open>tf.stop_gradient\<close> and the probability factor, plus \<open>ce_smoothing\<close> times
  the decoder's own loss when \<open>ce_smoothing > 0\<close>. The reward of sample \<open>s\<close> and example
  \<open>b\<close> is the score of the \<open>s\<close>-th sampled output, less the baseline when
  \<open>subtract_baseline\<close> is set. The probability factor is the sentence log-probability, the
  sum over the time steps of the negated cross-entropy of the sampled symbol; when
  \<open>normalize\<close> is set it is instead the softmax over the samples of the log-probabilities
  multiplied by \<open>alpha\<close>. Hence the value of the loss is the batch mean of the sum over
  samples of minus reward times probability factor, and its derivative is the same
  expression with the derivative of the probability factor in place of its value: no
  derivative passes through the reward. With one sample, no normalisation and
  \<open>ce_smoothing = 0\<close> the loss is the batch mean of minus reward times sentence
  log-probability.
\<close>

theorem reinforce_loss_is_policy_gradient_surrogate:
  fixes self :: ReinforceObjective and dec :: decoder
    and decoding_loop :: "nat \<Rightarrow> bool \<Rightarrow> bool \<Rightarrow> real \<Rightarrow> loop_result"
    and score :: "nat list list \<Rightarrow> nat list list \<Rightarrow> dual list"
    and vars :: baseline_variables
    and S B :: nat and res :: "nat \<Rightarrow> loop_result"
    and reward logprob R P :: "nat \<Rightarrow> nat \<Rightarrow> dual" and base :: real
  defines "S \<equiv> nat (sample_size self)"
    and "B \<equiv> batch_size dec"
    and "res \<equiv> \<lambda>s. decoding_loop s False True (temperature self)"
    and "reward \<equiv> \<lambda>s b. score (train_inputs dec) (output_symbols (res s)) ! b"
    and "logprob \<equiv> \<lambda>s b. \<Sum>t<length (logits (res s)).
           - sparse_softmax_cross_entropy_with_logits (output_symbols (res s) ! t ! b)
               (logits (res s) ! t ! b)"
    and "base \<equiv> fl32 (reward_sum vars + (\<Sum>s<S. \<Sum>b<B. val (reward s b)))
                  / max (fl32 (reward_counter vars + fl32 (real (B * S)))) 1"
    and "R \<equiv> \<lambda>s b. if subtract_baseline self then reward s b - tf_constant base
                     else reward s b"
    and "P \<equiv> \<lambda>s b. if normalize self
                     then tf_div (tf_exp (logprob s b * tf_constant (alpha self)))
                            (\<Sum>s'<S. tf_exp (logprob s' b * tf_constant (alpha self)))
                     else logprob s b"
  assumes "0 < sample_size self" and "0 < batch_size dec"
    and "\<forall>i < nat (sample_size self).
       well_shaped dec (decoding_loop i False True (temperature self)) \<and>
       length (score (train_inputs dec)
         (output_symbols (decoding_loop i False True (temperature self)))) = batch_size dec"
  shows "\<exists>l vars'. loss self dec decoding_loop score vars = Inr (l, vars') \<and>
     l = tf_div (\<Sum>b<B. \<Sum>s<S. stop_gradient (- R s b) * P s b) (tf_constant (real B))
         + (if ce_smoothing self > 0 then tf_constant (ce_smoothing self) * cost dec else 0) \<and>
     val l = (\<Sum>b<B. \<Sum>s<S. - val (R s b) * val (P s b)) / real B
         + (if ce_smoothing self > 0 then ce_smoothing self * val (cost dec) else 0) \<and>
     grad l = (\<Sum>b<B. \<Sum>s<S. - val (R s b) * grad (P s b)) / real B
         + (if ce_smoothing self > 0 then ce_smoothing self * grad (cost dec) else 0) \<and>
     (\<forall>s < S. \<forall>b < B.
        val (R s b) = val (reward s b) - (if subtract_baseline self then base else 0) \<and>
        val (P s b) =
          (if normalize self
           then exp (val (logprob s b) * alpha self)
                  / (\<Sum>s'<S. exp (val (logprob s' b) * alpha self))
           else val (logprob s b))) \<and>
     (sample_size self = 1 \<and> \<not> normalize self \<and> ce_smoothing self = 0 \<longrightarrow>
        val l = (\<Sum>b<B. - val (R 0 b) * val (logprob 0 b)) / real B \<and>
        (\<not> subtract_baseline self \<longrightarrow>
           val l = (\<Sum>b<B. - val (reward 0 b) * val (logprob 0 b)) / real B))"
proof -
  let ?Rraw = "samples_rewards self dec decoding_loop score"
  let ?Praw = "samples_logprobs self dec decoding_loop"
  let ?l = "tf_div (\<Sum>b<B. \<Sum>s<S. stop_gradient (- R s b) * P s b) (tf_constant (real B))
         + (if ce_smoothing self > 0 then tf_constant (ce_smoothing self) * cost dec else 0)"
  have Spos: "0 < S" and Bpos: "0 < B"
    using assms(9,10) by (simp_all add: S_def B_def)
  have fit: "\<forall>i < S. well_shaped dec (res i) \<and>
      length (score (train_inputs dec) (output_symbols (res i))) = B"
    using assms(11) by (simp add: S_def B_def res_def)
  have lenR: "length ?Rraw = S" and lenP: "length ?Praw = S"
    by (simp_all add: samples_rewards_def samples_logprobs_def length_sample_results S_def)
  have rowsR: "\<forall>row \<in> set ?Rraw. length row = B"
    using fit by (auto simp: samples_rewards_def sample_results_def S_def res_def)
  have rowsP: "\<forall>row \<in> set ?Praw. length row = batch_size dec"
    using fit
    by (auto simp: samples_logprobs_def sample_results_def S_def res_def B_def
        length_sent_logprobs)
  have raw: "?Rraw ! s ! b = reward s b" if "s < S" for s b
    using that
    by (simp add: samples_rewards_def nth_sample_results length_sample_results S_def
        reward_def res_def)
  have lp: "?Praw ! s ! b = logprob s b" if "s < S" "b < B" for s b
    using that fit nth_sent_logprobs [of dec "res s" b]
    by (simp add: samples_logprobs_def nth_sample_results length_sample_results S_def
        logprob_def res_def B_def)
  have cnt: "real_of_int (int (batch_size dec) * sample_size self) = real (B * S)"
    using assms(9) by (simp add: S_def B_def)
  have "val (reduce_sum ?Rraw) = (\<Sum>s<S. \<Sum>b<B. val (?Rraw ! s ! b))"
    using val_reduce_sum [OF rowsR] lenR by simp
  also have "\<dots> = (\<Sum>s<S. \<Sum>b<B. val (reward s b))"
    by (intro sum.cong) (simp_all add: raw)
  finally have tot: "val (reduce_sum ?Rraw) = (\<Sum>s<S. \<Sum>b<B. val (reward s b))" .
  have bs: "baseline (update_variables self dec ?Rraw vars) = base"
    unfolding baseline_update tot cnt base_def ..
  have Rent: "rewards_used self dec ?Rraw vars ! s ! b = R s b" if "s < S" "b < B" for s b
    using that rowsR lenR rewards_used_entry [of s ?Rraw b self dec vars]
    by (simp add: raw bs R_def)
  have Pent: "probs_used self dec ?Praw ! s ! b = P s b" if "s < S" "b < B" for s b
  proof -
    have "(\<Sum>s'<S. tf_exp (?Praw ! s' ! b * tf_constant (alpha self))) =
        (\<Sum>s'<S. tf_exp (logprob s' b * tf_constant (alpha self)))"
      using that(2) by (intro sum.cong) (simp_all add: lp)
    then show ?thesis
      using that lenP probs_used_entry [OF rowsP, of s b self]
      by (simp add: lp P_def B_def)
  qed
  have "(\<Sum>b<batch_size dec. \<Sum>s<nat (sample_size self).
           stop_gradient (- (rewards_used self dec ?Rraw vars ! s ! b))
           * (probs_used self dec ?Praw ! s ! b)) =
        (\<Sum>b<B. \<Sum>s<S. stop_gradient (- R s b) * P s b)"
    unfolding S_def [symmetric] B_def [symmetric]
    by (intro sum.cong) (simp_all add: Rent Pent)
  with loss_dual [of self dec decoding_loop score vars, OF assms(9,10,11)]
  have l: "loss self dec decoding_loop score vars =
      Inr (?l, if subtract_baseline self then update_variables self dec ?Rraw vars else vars)"
    by (simp add: B_def)
  have v: "val ?l = (\<Sum>b<B. \<Sum>s<S. - val (R s b) * val (P s b)) / real B
         + (if ce_smoothing self > 0 then ce_smoothing self * val (cost dec) else 0)"
    by (simp add: dual_val_simps val_sum)
  have g: "grad ?l = (\<Sum>b<B. \<Sum>s<S. - val (R s b) * grad (P s b)) / real B
         + (if ce_smoothing self > 0 then ce_smoothing self * grad (cost dec) else 0)"
    using Bpos
    by (simp add: dual_val_simps dual_grad_simps grad_sum grad_div_constant)
  have e: "\<forall>s < S. \<forall>b < B.
        val (R s b) = val (reward s b) - (if subtract_baseline self then base else 0) \<and>
        val (P s b) =
          (if normalize self
           then exp (val (logprob s b) * alpha self)
                  / (\<Sum>s'<S. exp (val (logprob s' b) * alpha self))
           else val (logprob s b))"
    by (simp add: R_def P_def dual_val_simps val_sum)
  have one: "val ?l = (\<Sum>b<B. - val (R 0 b) * val (logprob 0 b)) / real B"
    if "sample_size self = 1" "\<not> normalize self" "ce_smoothing self = 0"
    using that v by (simp add: S_def P_def)
  have two: "val ?l = (\<Sum>b<B. - val (reward 0 b) * val (logprob 0 b)) / real B"
    if "sample_size self = 1" "\<not> normalize self" "ce_smoothing self = 0"
      "\<not> subtract_baseline self"
    using that one by (simp add: R_def)
  show ?thesis
    using l v g e one two by (intro exI [of _ ?l] exI conjI) auto
qed

subsection \<open>Rounding to float32\<close>

lemma round_half_even_of_int: "round_half_even (of_int z) = z"
  by (simp add: round_half_even_def)

lemma round_half_even_below:
  "0 \<le> r \<Longrightarrow> r < 1 / 2 \<Longrightarrow> round_half_even (of_int z + r) = z"
proof -
  assume r: "0 \<le> r" "r < 1 / 2"
  then have "\<lfloor>of_int z + r\<rfloor> = z" by (intro floor_unique) simp_all
  with r show ?thesis by (simp add: round_half_even_def)
qed



lemma powr_powi: "(2 :: real) powr (of_int e) = 2 powi e"
  by (simp add: powr_real_of_int power_int_def power_one_over inverse_eq_divide)

lemma fl32_binade:
  assumes "2 powi e \<le> \<bar>x\<bar>" "\<bar>x\<bar> < 2 powi (e + 1)" "- 126 \<le> e"
  shows "fl32 x = of_int (round_half_even (x / 2 powi (e - 23))) * 2 powi (e - 23)"
proof -
  have "(0 :: real) < 2 powi e" by simp
  with assms(1) have pos: "0 < \<bar>x\<bar>" by linarith
  have "real_of_int e + 1 = real_of_int (e + 1)" by simp
  then have "2 powr (real_of_int e + 1) = (2 :: real) powi (e + 1)"
    by (simp only: powr_powi)
  with assms(1,2) have "\<lfloor>log 2 \<bar>x\<bar>\<rfloor> = e"
    using pos by (simp add: floor_log_eq_powr_iff powr_powi)
  with assms(3) pos show ?thesis
    by (simp add: fl32_def Let_def max_def)
qed

lemma fl32_exact:
  assumes "2 powi e \<le> \<bar>x\<bar>" "\<bar>x\<bar> < 2 powi (e + 1)" "- 126 \<le> e"
    and "x / 2 powi (e - 23) = of_int z"
  shows "fl32 x = x"
proof -
  have "(2 :: real) powi (e - 23) \<noteq> 0" by simp
  with assms(4) have "of_int z * 2 powi (e - 23) = x"
    by (simp add: field_simps)
  with fl32_binade [OF assms(1-3)] assms(4) show ?thesis
    by (simp add: round_half_even_of_int)
qed

lemma binade_exists:
  fixes x :: real
  assumes "x \<noteq> 0"
  shows "2 powi \<lfloor>log 2 \<bar>x\<bar>\<rfloor> \<le> \<bar>x\<bar> \<and> \<bar>x\<bar> < 2 powi (\<lfloor>log 2 \<bar>x\<bar>\<rfloor> + 1)"
proof -
  from assms have pos: "0 < \<bar>x\<bar>" by simp
  have "real_of_int \<lfloor>log 2 \<bar>x\<bar>\<rfloor> + 1 = real_of_int (\<lfloor>log 2 \<bar>x\<bar>\<rfloor> + 1)" by simp
  then have "2 powr (real_of_int \<lfloor>log 2 \<bar>x\<bar>\<rfloor> + 1) = (2 :: real) powi (\<lfloor>log 2 \<bar>x\<bar>\<rfloor> + 1)"
    by (simp only: powr_powi)
  moreover have "2 powr (real_of_int \<lfloor>log 2 \<bar>x\<bar>\<rfloor>) \<le> \<bar>x\<bar> \<and>
      \<bar>x\<bar> < 2 powr (real_of_int \<lfloor>log 2 \<bar>x\<bar>\<rfloor> + 1)"
    using floor_log_eq_powr_iff [of "\<bar>x\<bar>" 2 "\<lfloor>log 2 \<bar>x\<bar>\<rfloor>"] pos by simp
  ultimately show ?thesis by (simp add: powr_powi)
qed

text \<open>Every integer of magnitude at most \<open>2^24\<close> is a float32.\<close>

lemma fl32_of_int:
  assumes "\<bar>m\<bar> \<le> 2 ^ 24"
  shows "fl32 (of_int m) = of_int m"
proof (cases "m = 0")
  case True
  then show ?thesis by (simp add: fl32_def)
next
  case False
  define e where "e = \<lfloor>log 2 \<bar>real_of_int m\<bar>\<rfloor>"
  from False have nz: "real_of_int m \<noteq> 0" by simp
  from binade_exists [OF nz] have lo: "2 powi e \<le> \<bar>real_of_int m\<bar>"
    and hi: "\<bar>real_of_int m\<bar> < 2 powi (e + 1)"
    by (simp_all add: e_def)
  from False have "1 \<le> \<bar>m\<bar>" by simp
  then have one: "1 \<le> \<bar>real_of_int m\<bar>" by (metis of_int_1_le_iff of_int_abs)
  have e0: "0 \<le> e"
  proof (rule ccontr)
    assume "\<not> 0 \<le> e"
    then have "e + 1 \<le> 0" by simp
    then have "(2 :: real) powi (e + 1) \<le> 2 powi 0"
      by (intro power_int_increasing) simp_all
    with hi one show False by simp
  qed
  from assms have top: "\<bar>real_of_int m\<bar> \<le> 2 ^ 24"
    by (metis of_int_abs of_int_le_numeral_power_cancel_iff)
  have e24: "e \<le> 24"
  proof (rule ccontr)
    assume "\<not> e \<le> 24"
    then have "25 \<le> e" by simp
    then have "(2 :: real) powi 25 \<le> 2 powi e"
      by (intro power_int_increasing) simp_all
    with lo top show False by simp
  qed
  show ?thesis
  proof (cases "e \<le> 23")
    case True
    define k where "k = nat (23 - e)"
    from True have "e - 23 = - int k" by (simp add: k_def)
    then have "(2 :: real) powi (e - 23) = inverse (2 ^ k)"
      by (simp add: power_int_minus)
    then have "real_of_int m / 2 powi (e - 23) = of_int (m * 2 ^ k)"
      by (simp add: field_simps)
    with lo hi e0 show ?thesis
      by (intro fl32_exact [of e _ "m * 2 ^ k"]) simp_all
  next
    case False
    with e24 have e: "e = 24" by simp
    with lo top have "\<bar>real_of_int m\<bar> = 2 ^ 24" by simp
    then have "\<bar>m\<bar> = 2 ^ 24"
      by (metis of_int_abs of_int_eq_numeral_power_cancel_iff)
    then have "m = 16777216 \<or> m = - 16777216" by (simp add: abs_if split: if_splits)
    then have "real_of_int m / 2 powi (e - 23) = of_int (m div 2)"
      unfolding e by auto
    with lo hi e0 show ?thesis
      by (intro fl32_exact [of e _ "m div 2"]) simp_all
  qed
qed

lemma fl32_of_nat: "n \<le> 2 ^ 24 \<Longrightarrow> fl32 (real n) = real n"
  using fl32_of_int [of "int n"] by simp

subsection \<open>Baseline\<close>












subsection \<open>Float32 totals that stop growing\<close>




lemma fl32_67108867: "fl32 67108867 = 67108864"
proof -
  have "(67108867 :: real) / 2 powi (26 - 23) = of_int 8388608 + 3 / 8" by simp
  then have "round_half_even (67108867 / 2 powi (26 - 23)) = 8388608"
    by (simp only: round_half_even_below [of "3 / 8" 8388608])
  then show ?thesis
    using fl32_binade [of 26 67108867] by simp
qed






lemma sum_stuck: "((\<lambda>x. fl32 (x + 3)) ^^ k) 67108864 = 67108864"
  by (induction k) (simp_all add: fl32_67108867)






subsection \<open>Instances\<close>

theorem sentence_logprob_sums_all_positions_witness:
  "well_shaped \<lparr>train_inputs = [[0], [1]], batch_size = 1, cost = Dual 0 0\<rparr>
     \<lparr>logits = [[[Dual 0 0, Dual 0 0]], [[Dual 0 0, Dual 0 0]]], output_symbols = [[1], [0]]\<rparr> \<and>
   sent_logprobs \<lparr>train_inputs = [[0], [1]], batch_size = 1, cost = Dual 0 0\<rparr>
     \<lparr>logits = [[[Dual 0 0, Dual 0 0]], [[Dual 0 0, Dual 0 0]]], output_symbols = [[1], [0]]\<rparr> ! 0
     = Dual (- ln 2 - ln 2) 0"
proof -
  let ?dec = "\<lparr>train_inputs = [[0], [1]], batch_size = 1, cost = Dual 0 0\<rparr>"
  let ?r = "\<lparr>logits = [[[Dual 0 0, Dual 0 0]], [[Dual 0 0, Dual 0 0]]],
             output_symbols = [[1], [0]]\<rparr>"
  have w: "well_shaped ?dec ?r"
    by (simp add: well_shaped_def valid_labels_def)
  have b: "0 < batch_size ?dec" by simp
  from sentence_logprob_sums_all_positions [OF w b]
  have "sent_logprobs ?dec ?r ! 0 =
     (\<Sum>t<length (logits ?r).
        - sparse_softmax_cross_entropy_with_logits (output_symbols ?r ! t ! 0) (logits ?r ! t ! 0))"
    by blast
  also have "\<dots> = Dual (- ln 2 - ln 2) 0"
    by (simp add: lessThan_Suc numeral_2_eq_2 sparse_softmax_cross_entropy_with_logits_def
        tf_log_def tf_exp_def plus_dual_def minus_dual_def uminus_dual_def zero_dual_def)
  finally show ?thesis using w by simp
qed

lemma keep_value:
  "\<exists>l v. A l v \<and> B l v \<and> C l v \<and> D l v \<Longrightarrow> \<exists>l v. A l v \<and> C l v"
  by blast

lemma fl32_small: "fl32 2 = 2" "fl32 4 = 4" "fl32 6 = 6" "fl32 20 = 20"
  using fl32_of_nat [of 2] fl32_of_nat [of 4] fl32_of_nat [of 6] fl32_of_nat [of 20]
  by simp_all

theorem reinforce_loss_is_policy_gradient_surrogate_witness:
  "map_sum id (val \<circ> fst)
     (loss \<lparr>subtract_baseline = True, normalize = True, temperature = 1, ce_smoothing = 1 / 2,
             alpha = 1, sample_size = 2\<rparr>
        \<lparr>train_inputs = [[0, 0]], batch_size = 2, cost = Dual 4 1\<rparr>
        (\<lambda>i train sample temp.
           if i = 0 then \<lparr>logits = [[[0, 0], [0, 0]]], output_symbols = [[0, 0]]\<rparr>
           else \<lparr>logits = [[[0, Dual (ln 3) 1], [0, Dual (ln 3) 1]]],
                  output_symbols = [[1, 1]]\<rparr>)
        (\<lambda>reference hypotheses.
           if hypotheses = [[0, 0]] then [tf_constant 2, tf_constant 4]
           else [tf_constant 6, tf_constant 8])
        initial_variables)
     = Inr (8 / 5) \<and>
   map_sum id (val \<circ> fst)
     (loss \<lparr>subtract_baseline = False, normalize = False, temperature = 1, ce_smoothing = 0,
             alpha = 1, sample_size = 1\<rparr>
        \<lparr>train_inputs = [[0]], batch_size = 1, cost = Dual 4 1\<rparr>
        (\<lambda>i train sample temp. \<lparr>logits = [[[Dual 0 1, 0]]], output_symbols = [[0]]\<rparr>)
        (\<lambda>reference hypotheses. [tf_constant 2])
        initial_variables)
     = Inr (2 * ln 2)"
proof -
  let ?self = "\<lparr>subtract_baseline = True, normalize = True, temperature = 1,
                 ce_smoothing = 1 / 2, alpha = 1, sample_size = 2\<rparr>"
  let ?dec = "\<lparr>train_inputs = [[0, 0]], batch_size = 2, cost = Dual 4 1\<rparr>"
  let ?loop = "\<lambda>(i :: nat) (train :: bool) (sample :: bool) (temp :: real).
                 if i = 0 then \<lparr>logits = [[[0, 0], [0, 0]]], output_symbols = [[0, 0]]\<rparr>
                 else \<lparr>logits = [[[0, Dual (ln 3) 1], [0, Dual (ln 3) 1]]],
                        output_symbols = [[1, 1]]\<rparr>"
  let ?score = "\<lambda>(reference :: nat list list) (hypotheses :: nat list list).
                  if hypotheses = [[0, 0]] then [tf_constant 2, tf_constant 4]
                  else [tf_constant 6, tf_constant 8]"
  have s: "0 < sample_size ?self" and b: "0 < batch_size ?dec" by simp_all
  have fit: "\<forall>i < nat (sample_size ?self).
       well_shaped ?dec (?loop i False True (temperature ?self)) \<and>
       length (?score (train_inputs ?dec)
         (output_symbols (?loop i False True (temperature ?self)))) = batch_size ?dec"
    by (simp add: well_shaped_def valid_labels_def)
  note t = reinforce_loss_is_policy_gradient_surrogate
      [where self = ?self and dec = ?dec and decoding_loop = ?loop and score = ?score
         and vars = initial_variables, OF s b fit]
  have "\<exists>l vars'. loss ?self ?dec ?loop ?score initial_variables = Inr (l, vars') \<and>
      val l = 8 / 5"
    using keep_value [OF t]
    by (simp add: numeral_2_eq_2 lessThan_Suc initial_variables_def fl32_small
        dual_val_simps val_sum val_sum_list sparse_softmax_cross_entropy_with_logits_def
        exp_minus exp_diff)
  then have first: "map_sum id (val \<circ> fst) (loss ?self ?dec ?loop ?score initial_variables) =
      Inr (8 / 5)"
    by auto
  let ?self1 = "\<lparr>subtract_baseline = False, normalize = False, temperature = 1,
                  ce_smoothing = 0, alpha = 1, sample_size = 1\<rparr>"
  let ?dec1 = "\<lparr>train_inputs = [[0]], batch_size = 1, cost = Dual 4 1\<rparr>"
  let ?loop1 = "\<lambda>(i :: nat) (train :: bool) (sample :: bool) (temp :: real).
                  \<lparr>logits = [[[Dual 0 1, 0]]], output_symbols = [[0]]\<rparr>"
  let ?score1 = "\<lambda>(reference :: nat list list) (hypotheses :: nat list list).
                   [tf_constant 2]"
  have s1: "0 < sample_size ?self1" and b1: "0 < batch_size ?dec1" by simp_all
  have fit1: "\<forall>i < nat (sample_size ?self1).
       well_shaped ?dec1 (?loop1 i False True (temperature ?self1)) \<and>
       length (?score1 (train_inputs ?dec1)
         (output_symbols (?loop1 i False True (temperature ?self1)))) = batch_size ?dec1"
    by (simp add: well_shaped_def valid_labels_def)
  note t1 = reinforce_loss_is_policy_gradient_surrogate
      [where self = ?self1 and dec = ?dec1 and decoding_loop = ?loop1 and score = ?score1
         and vars = initial_variables, OF s1 b1 fit1]
  have "\<exists>l vars'. loss ?self1 ?dec1 ?loop1 ?score1 initial_variables = Inr (l, vars') \<and>
      val l = 2 * ln 2"
    using keep_value [OF t1]
    by (simp add: dual_val_simps val_sum val_sum_list
        sparse_softmax_cross_entropy_with_logits_def)
  then have second: "map_sum id (val \<circ> fst)
      (loss ?self1 ?dec1 ?loop1 ?score1 initial_variables) = Inr (2 * ln 2)"
    by auto
  from first second show ?thesis by (rule conjI)
qed


end
